theory Spec2Isabelle
  imports Main "HOL-Library.AList" "HOL-Library.Sublist"
begin

section \<open>Values, storage and the extension instance\<close>

text \<open>
  The module keeps everything in the browser's key-value storage as JSON text and works on
  the parsed values. The embedding represents a stored text by the JSON value it denotes:
  \<open>JSON.stringify\<close> followed by \<open>JSON.parse\<close> is the identity on the values below.
  An object is an association list in insertion order; \<open>map_of\<close> reads a property
  (\<open>None\<close> is \<open>undefined\<close>), \<open>AList.update\<close> assigns one and \<open>AList.delete\<close> deletes one.
  Strings are byte sequences in UTF-8. Numbers are the integers (time stamps, minutes).
\<close>

datatype json =
    JNull
  | JBool bool
  | JNum int
  | JStr string
  | JArr "json list"
  | JObj "(string \<times> json) list"

type_synonym jobj = "(string \<times> json) list"

text \<open>
  What a JavaScript exception becomes. \<open>TypeError\<close> is the exception of that name.
  \<open>IllTyped\<close> marks a stored value outside its declared TypeScript type at a place where
  the source would go on with a value or a collaborator call that this embedding does not
  represent (an array carrying named properties, a storage read with a key that is neither
  a string nor absent), or an input that a model of the engine does not cover.
\<close>

datatype fault = TypeError | IllTyped

text \<open>The two storage areas of the browser collaborator, each a map from key to value.\<close>

record browser_storage =
  storage_local :: "string \<rightharpoonup> json"
  storage_sync :: "string \<rightharpoonup> json"

datatype area = LocalArea | SyncArea

definition area_get :: "area \<Rightarrow> browser_storage \<Rightarrow> string \<Rightarrow> json option" where
  "area_get db st k = (case db of LocalArea \<Rightarrow> storage_local st k | SyncArea \<Rightarrow> storage_sync st k)"

definition area_set :: "area \<Rightarrow> string \<Rightarrow> json \<Rightarrow> browser_storage \<Rightarrow> browser_storage" where
  "area_set db k v st =
     (case db of
        LocalArea \<Rightarrow> st\<lparr>storage_local := (storage_local st)(k \<mapsto> v)\<rparr>
      | SyncArea \<Rightarrow> st\<lparr>storage_sync := (storage_sync st)(k \<mapsto> v)\<rparr>)"

definition remove_keys :: "string list \<Rightarrow> (string \<rightharpoonup> json) \<Rightarrow> (string \<rightharpoonup> json)" where
  "remove_keys ks m = (\<lambda>k. if k \<in> set ks then None else m k)"

definition area_remove :: "area \<Rightarrow> string list \<Rightarrow> browser_storage \<Rightarrow> browser_storage" where
  "area_remove db ks st =
     (case db of
        LocalArea \<Rightarrow> st\<lparr>storage_local := remove_keys ks (storage_local st)\<rparr>
      | SyncArea \<Rightarrow> st\<lparr>storage_sync := remove_keys ks (storage_sync st)\<rparr>)"

text \<open>\<open>enableSync ? storage.sync : storage.local\<close>\<close>

definition select_area :: "bool \<Rightarrow> area" where
  "select_area enableSync = (if enableSync then SyncArea else LocalArea)"

subsection \<open>JavaScript conversions\<close>

definition digit_char :: "nat \<Rightarrow> char" where
  "digit_char d = char_of (48 + d)"

fun string_of_nat :: "nat \<Rightarrow> string" where
  "string_of_nat n = (if n < 10 then [digit_char n] else string_of_nat (n div 10) @ [digit_char (n mod 10)])"

declare string_of_nat.simps [simp del]

definition string_of_int :: "int \<Rightarrow> string" where
  "string_of_int i = (if i < 0 then CHR ''-'' # string_of_nat (nat (- i)) else string_of_nat (nat i))"

text \<open>
  The string a value becomes inside a template literal (\<open>ToString\<close>): an array joins its
  elements with commas, \<open>null\<close> elements as the empty string; an object prints its tag.
\<close>

fun join_comma :: "string list \<Rightarrow> string" where
  "join_comma [] = []"
| "join_comma [s] = s"
| "join_comma (s # t # ts) = s @ '','' @ join_comma (t # ts)"

fun js_string :: "json \<Rightarrow> string" where
  "js_string JNull = ''null''"
| "js_string (JBool b) = (if b then ''true'' else ''false'')"
| "js_string (JNum n) = string_of_int n"
| "js_string (JStr s) = s"
| "js_string (JArr xs) = join_comma (map (\<lambda>x. if x = JNull then [] else js_string x) xs)"
| "js_string (JObj kvs) = ''[object Object]''"

definition js_string_opt :: "json option \<Rightarrow> string" where
  "js_string_opt v = (case v of None \<Rightarrow> ''undefined'' | Some x \<Rightarrow> js_string x)"

text \<open>Truthiness of a value (\<open>None\<close> is \<open>undefined\<close>).\<close>

definition js_truthy :: "json option \<Rightarrow> bool" where
  "js_truthy v =
     (case v of
        None \<Rightarrow> False
      | Some JNull \<Rightarrow> False
      | Some (JBool b) \<Rightarrow> b
      | Some (JNum n) \<Rightarrow> n \<noteq> 0
      | Some (JStr s) \<Rightarrow> s \<noteq> []
      | Some (JArr xs) \<Rightarrow> True
      | Some (JObj kvs) \<Rightarrow> True)"

text \<open>
  Strict equality \<open>===\<close>. Primitive values compare by value. Arrays and objects compare by
  reference; the values compared in this module come from separate \<open>JSON.parse\<close> results,
  so two of them are never the same reference.
\<close>

definition strict_eq :: "json option \<Rightarrow> json option \<Rightarrow> bool" where
  "strict_eq a b =
     (case a of
        Some (JArr xs) \<Rightarrow> False
      | Some (JObj kvs) \<Rightarrow> False
      | _ \<Rightarrow> a = b)"

text \<open>The own enumerable properties that an object spread \<open>{...data}\<close> copies.\<close>

definition spread :: "json \<Rightarrow> jobj" where
  "spread data =
     (case data of
        JObj kvs \<Rightarrow> kvs
      | JArr xs \<Rightarrow> zip (map string_of_nat [0..<length xs]) xs
      | _ \<Rightarrow> [])"

subsection \<open>The instance\<close>

text \<open>
  Of the \<open>Extension\<close> instance the storage functions use the configured name (the prefix of
  every storage key) and the two default records. The default records are fields of the
  instance: \<open>loadSettings\<close> and \<open>loadUser\<close> hand the very object out when nothing is
  stored, so a caller that assigns to the result changes the field.
\<close>

record extension =
  config_name :: string
  defaultCustom :: jobj
  defaultSettings :: jobj

definition hardcoded_defaultCustom :: jobj where
  "hardcoded_defaultCustom =
     [(''accounts'', JObj []),
      (''accountsOverride'', JBool False),
      (''displayName'', JStr ''''),
      (''sessionLabelSso'', JStr ''{{user}}/{{profile}} @ {{account}}''),
      (''sessionLabelIam'', JStr ''{{user}}/{{role}} @ {{account}} via {{profile}}''),
      (''colorDefault'', JStr ''222f3e''),
      (''colorFooter'', JBool True),
      (''colorHeader'', JBool True),
      (''labelFooter'', JBool True),
      (''labelHeader'', JBool True),
      (''labelIcon'', JBool False),
      (''profiles'', JObj []),
      (''hotkeys'', JObj [(''openProfile1'', JStr ''''), (''openProfile2'', JStr ''''), (''openProfile3'', JStr '''')])]"

definition hardcoded_defaultSettings :: jobj where
  "hardcoded_defaultSettings =
     [(''defaultUser'', JStr ''lastUserId''),
      (''enableSync'', JBool True),
      (''lastUserId'', JNull),
      (''lastProfileId'', JNull),
      (''firefoxContainers'', JBool False),
      (''firefoxResumeContainer'', JBool True),
      (''firefoxExpireMinsContainer'', JNum 480),
      (''iconColor'', JStr ''red''),
      (''navCurrentTab'', JBool False),
      (''showReleaseNotes'', JBool True),
      (''showAllProfiles'', JBool False),
      (''tableSettings'', JObj
         [(''showAllUsers'', JBool False),
          (''showIamRoles'', JBool True),
          (''showIcon'', JBool True),
          (''sortCustom'', JBool False),
          (''sortApp'', JStr ''desc''),
          (''sortProfile'', JBool False)])]"

text \<open>The instance as the constructor leaves it.\<close>

definition new_Extension :: "string \<Rightarrow> extension" where
  "new_Extension name =
     \<lparr>config_name = name, defaultCustom = hardcoded_defaultCustom, defaultSettings = hardcoded_defaultSettings\<rparr>"

text \<open>The storage keys, as the template literals build them.\<close>

definition settingsKey :: "extension \<Rightarrow> string" where
  "settingsKey ext = config_name ext @ ''-settings''"

definition usersKey :: "extension \<Rightarrow> string" where
  "usersKey ext = config_name ext @ ''-users''"

definition userKey :: "extension \<Rightarrow> string \<Rightarrow> string" where
  "userKey ext userId = config_name ext @ ''-user-'' @ userId"

definition customKey :: "extension \<Rightarrow> string \<Rightarrow> string" where
  "customKey ext userId = config_name ext @ ''-custom-'' @ userId"

definition loginsKey :: "extension \<Rightarrow> string" where
  "loginsKey ext = config_name ext @ ''-iam-logins''"

section \<open>The storage functions\<close>

text \<open>
  \<open>saveData\<close>: an object is stored as a copy stamped with \<open>updatedAt: Date.now()\<close>
  (\<open>typeof\<close> is \<open>'object'\<close> for \<open>null\<close> and for arrays too); any other value is stored as it
  is. The reading of the clock is the parameter \<open>now\<close>.
\<close>

definition stamp :: "int \<Rightarrow> json \<Rightarrow> json" where
  "stamp now data =
     (case data of
        JBool b \<Rightarrow> data
      | JNum n \<Rightarrow> data
      | JStr s \<Rightarrow> data
      | _ \<Rightarrow> JObj (AList.update ''updatedAt'' (JNum now) (spread data)))"

definition saveData :: "string \<Rightarrow> json \<Rightarrow> area \<Rightarrow> int \<Rightarrow> browser_storage \<Rightarrow> browser_storage" where
  "saveData dataKey data db now st = area_set db dataKey (stamp now data) st"

definition saveSettings :: "extension \<Rightarrow> json \<Rightarrow> int \<Rightarrow> browser_storage \<Rightarrow> browser_storage" where
  "saveSettings ext settings now st = saveData (settingsKey ext) settings SyncArea now st"

definition saveCustom :: "extension \<Rightarrow> json \<Rightarrow> string \<Rightarrow> bool \<Rightarrow> int \<Rightarrow> browser_storage \<Rightarrow> browser_storage" where
  "saveCustom ext custom userId enableSync now st =
     saveData (customKey ext userId) custom (select_area enableSync) now st"

text \<open>
  The loop of \<open>loadSettings\<close> and \<open>loadUser\<close> over \<open>Object.keys\<close> of the default record:
  a key the loaded object does not own is assigned the default's value.
\<close>

definition backfill :: "jobj \<Rightarrow> jobj \<Rightarrow> jobj" where
  "backfill defaults obj =
     fold (\<lambda>key acc.
             if map_of acc key = None
             then (case map_of defaults key of Some v \<Rightarrow> AList.update key v acc | None \<Rightarrow> acc)
             else acc)
          (map fst defaults) obj"

text \<open>
  \<open>loadSettings\<close>. A stored value that is no object makes the loop raise (the default
  record has keys, so the loop runs): on a string, number or boolean the assignment of a
  property fails in strict code, on \<open>null\<close> the ownership test does. \<open>saveData\<close> never
  stores an array.
\<close>

definition loadSettings :: "extension \<Rightarrow> browser_storage \<Rightarrow> fault + jobj" where
  "loadSettings ext st =
     (case storage_sync st (settingsKey ext) of
        None \<Rightarrow> Inr (backfill (defaultSettings ext) (defaultSettings ext))
      | Some (JObj settings) \<Rightarrow> Inr (backfill (defaultSettings ext) settings)
      | Some (JArr xs) \<Rightarrow> Inl IllTyped
      | Some _ \<Rightarrow> Inl TypeError)"

text \<open>
  \<open>loadUser\<close>: the user record (an empty object when none is stored) with the customization
  record, backfilled from the defaults, assigned to its \<open>custom\<close> property.
\<close>

definition loadUser_custom :: "extension \<Rightarrow> string \<Rightarrow> bool \<Rightarrow> browser_storage \<Rightarrow> fault + jobj" where
  "loadUser_custom ext userId enableSync st =
     (case area_get (select_area enableSync) st (customKey ext userId) of
        None \<Rightarrow> Inr (backfill (defaultCustom ext) (defaultCustom ext))
      | Some (JObj custom) \<Rightarrow> Inr (backfill (defaultCustom ext) custom)
      | Some (JArr xs) \<Rightarrow> Inl IllTyped
      | Some _ \<Rightarrow> Inl TypeError)"

definition loadUser :: "extension \<Rightarrow> string \<Rightarrow> bool \<Rightarrow> browser_storage \<Rightarrow> fault + jobj" where
  "loadUser ext userId enableSync st =
     (case (case area_get (select_area enableSync) st (userKey ext userId) of None \<Rightarrow> JObj [] | Some v \<Rightarrow> v) of
        JObj user \<Rightarrow>
          (case loadUser_custom ext userId enableSync st of
             Inl e \<Rightarrow> Inl e
           | Inr custom \<Rightarrow> Inr (AList.update ''custom'' (JObj custom) user))
      | JArr xs \<Rightarrow> (case loadUser_custom ext userId enableSync st of Inl e \<Rightarrow> Inl e | Inr custom \<Rightarrow> Inl IllTyped)
      | _ \<Rightarrow> (case loadUser_custom ext userId enableSync st of Inl e \<Rightarrow> Inl e | Inr custom \<Rightarrow> Inl TypeError))"

text \<open>
  \<open>loadIamLogins\<close>: the stored mapping, or an empty object. What this module writes
  under the key is an object; a value of another shape is outside the mapping's type.
\<close>

definition loadIamLogins :: "extension \<Rightarrow> browser_storage \<Rightarrow> fault + jobj" where
  "loadIamLogins ext st =
     (case storage_local st (loginsKey ext) of
        None \<Rightarrow> Inr []
      | Some (JObj logins) \<Rightarrow> Inr logins
      | Some _ \<Rightarrow> Inl IllTyped)"

text \<open>
  The id list of the record under the users key: \<open>JSON.parse(...).users\<close>, on which the
  callers call \<open>forEach\<close> or \<open>filter\<close>. Anything but an array there raises.
\<close>

definition stored_userIds :: "extension \<Rightarrow> browser_storage \<Rightarrow> fault + json list" where
  "stored_userIds ext st =
     (case storage_sync st (usersKey ext) of
        None \<Rightarrow> Inr []
      | Some (JObj rec) \<Rightarrow> (case map_of rec ''users'' of Some (JArr ids) \<Rightarrow> Inr ids | _ \<Rightarrow> Inl TypeError)
      | Some _ \<Rightarrow> Inl TypeError)"

fun sequence_results :: "(fault + 'a) list \<Rightarrow> fault + 'a list" where
  "sequence_results [] = Inr []"
| "sequence_results (r # rs) =
     (case r of
        Inl e \<Rightarrow> Inl e
      | Inr x \<Rightarrow> (case sequence_results rs of Inl e \<Rightarrow> Inl e | Inr xs \<Rightarrow> Inr (x # xs)))"

definition loadUsers :: "extension \<Rightarrow> bool \<Rightarrow> browser_storage \<Rightarrow> fault + jobj list" where
  "loadUsers ext enableSync st =
     (case stored_userIds ext st of
        Inl e \<Rightarrow> Inl e
      | Inr userIds \<Rightarrow> sequence_results (map (\<lambda>userId. loadUser ext (js_string userId) enableSync st) userIds))"

text \<open>
  \<open>saveUser\<close>: the customization first, under its own key, when the user object has a
  \<open>custom\<close> property; then the user record with \<open>custom\<close> replaced by an empty object.
  Both writes are issued, in this order, before the function returns. The two readings of
  the clock are \<open>t_custom\<close> and \<open>t_user\<close>.
\<close>

definition saveUser :: "extension \<Rightarrow> jobj \<Rightarrow> bool \<Rightarrow> int \<Rightarrow> int \<Rightarrow> browser_storage \<Rightarrow> browser_storage" where
  "saveUser ext user enableSync t_custom t_user st =
     (let uid = js_string_opt (map_of user ''userId'');
          st1 = (case map_of user ''custom'' of
                   Some c \<Rightarrow> saveCustom ext c uid enableSync t_custom st
                 | None \<Rightarrow> st)
      in saveData (userKey ext uid) (JObj (AList.update ''custom'' (JObj []) user))
           (select_area enableSync) t_user st1)"

subsection \<open>removeUser\<close>

definition is_JStr :: "json \<Rightarrow> bool" where
  "is_JStr v = (case v of JStr s \<Rightarrow> True | _ \<Rightarrow> False)"

text \<open>
  \<open>user.appProfileIds\<close> as \<open>removeUser\<close> uses it: skipped when falsy, otherwise iterated
  with \<open>forEach\<close> and handed to \<open>storage.local.remove\<close>, which takes strings.
\<close>

definition removable_appProfileIds :: "jobj \<Rightarrow> fault + string list option" where
  "removable_appProfileIds user =
     (if \<not> js_truthy (map_of user ''appProfileIds'') then Inr None
      else (case map_of user ''appProfileIds'' of
              Some (JArr xs) \<Rightarrow> if list_all is_JStr xs then Inr (Some (map js_string xs)) else Inl IllTyped
            | _ \<Rightarrow> Inl TypeError))"

text \<open>\<open>updatedUsers[0] || ''\<close>\<close>

definition first_or_empty :: "json list \<Rightarrow> json" where
  "first_or_empty vs = (case vs of [] \<Rightarrow> JStr [] | v # _ \<Rightarrow> if js_truthy (Some v) then v else JStr [])"

text \<open>
  The steps of \<open>removeUser\<close>, one definition for each commented block of the source, in its
  order; each \<open>await\<close> ends before the next step starts. The three \<open>saveData\<close> calls read
  the clock at \<open>t_logins\<close>, \<open>t_users\<close> and \<open>t_settings\<close>.
\<close>

text \<open>Remove user-specific storage keys.\<close>

definition remove_user_keys :: "extension \<Rightarrow> string \<Rightarrow> bool \<Rightarrow> browser_storage \<Rightarrow> browser_storage" where
  "remove_user_keys ext userId enableSync st =
     area_remove (select_area enableSync) [userKey ext userId, customKey ext userId] st"

text \<open>Remove associated app profiles.\<close>

definition remove_app_profiles :: "string list option \<Rightarrow> browser_storage \<Rightarrow> browser_storage" where
  "remove_app_profiles ids st = (case ids of Some (p # ps) \<Rightarrow> area_remove LocalArea (p # ps) st | _ \<Rightarrow> st)"

text \<open>Remove IAM logins for user's profiles.\<close>

definition remove_iam_logins :: "extension \<Rightarrow> string list option \<Rightarrow> int \<Rightarrow> browser_storage \<Rightarrow> fault + browser_storage" where
  "remove_iam_logins ext ids t_logins st =
     (case loadIamLogins ext st of
        Inl e \<Rightarrow> Inl e
      | Inr iamLogins \<Rightarrow>
          (case ids of
             Some ps \<Rightarrow> Inr (saveData (loginsKey ext) (JObj (fold AList.delete ps iamLogins)) LocalArea t_logins st)
           | None \<Rightarrow> Inr st))"

text \<open>Remove user from users list; the result carries \<open>updatedUsers\<close>.\<close>

definition remove_from_users ::
  "extension \<Rightarrow> string \<Rightarrow> int \<Rightarrow> browser_storage \<Rightarrow> fault + (json list \<times> browser_storage)" where
  "remove_from_users ext userId t_users st =
     (case stored_userIds ext st of
        Inl e \<Rightarrow> Inl e
      | Inr userIds \<Rightarrow>
          let updatedUsers = filter (\<lambda>v. \<not> strict_eq (Some v) (Some (JStr userId))) userIds
          in Inr (updatedUsers, saveData (usersKey ext) (JObj [(''users'', JArr updatedUsers)]) SyncArea t_users st))"

text \<open>
  Update settings if this was the default/last user. The settings object that is assigned
  to is the instance's default record itself when no settings are stored, so the instance
  is part of the result.
\<close>

definition update_removed_settings ::
  "extension \<Rightarrow> string \<Rightarrow> json list \<Rightarrow> int \<Rightarrow> browser_storage \<Rightarrow> fault + (extension \<times> browser_storage)" where
  "update_removed_settings ext userId updatedUsers t_settings st =
     (case loadSettings ext st of
        Inl e \<Rightarrow> Inl e
      | Inr stg \<Rightarrow>
          if strict_eq (map_of stg ''defaultUser'') (Some (JStr userId))
             \<or> strict_eq (map_of stg ''lastUserId'') (Some (JStr userId))
          then
            let s1 = AList.update ''lastUserId'' (first_or_empty updatedUsers) stg;
                s2 = (if strict_eq (map_of s1 ''defaultUser'') (Some (JStr userId))
                      then AList.update ''defaultUser'' (JStr ''lastUserId'') s1 else s1);
                ext' = (if storage_sync st (settingsKey ext) = None then ext\<lparr>defaultSettings := s2\<rparr> else ext)
            in Inr (ext', saveSettings ext (JObj s2) t_settings st)
          else Inr (ext, st))"

definition removeUser ::
  "extension \<Rightarrow> string \<Rightarrow> bool \<Rightarrow> int \<Rightarrow> int \<Rightarrow> int \<Rightarrow> browser_storage \<Rightarrow> fault + (extension \<times> browser_storage)" where
  "removeUser ext userId enableSync t_logins t_users t_settings st =
     (case loadUser ext userId enableSync st of
        Inl e \<Rightarrow> Inl e
      | Inr user \<Rightarrow>
     (case removable_appProfileIds user of
        Inl e \<Rightarrow> Inl e
      | Inr ids \<Rightarrow>
     (case remove_iam_logins ext ids t_logins
             (remove_app_profiles ids (remove_user_keys ext userId enableSync st)) of
        Inl e \<Rightarrow> Inl e
      | Inr st3 \<Rightarrow>
     (case remove_from_users ext userId t_users st3 of
        Inl e \<Rightarrow> Inl e
      | Inr (updatedUsers, st4) \<Rightarrow> update_removed_settings ext userId updatedUsers t_settings st4))))"

subsection \<open>importUserConfig\<close>

text \<open>
  The body runs inside \<open>try\<close>, and \<open>catch\<close> returns \<open>false\<close>. \<open>key in cfg\<close> raises unless
  \<open>cfg\<close> is an object or an array. \<open>saveSettings\<close> and \<open>saveCustom\<close> issue their writes
  before they return; the argument \<open>cfg.extension.enableSync\<close> of the second is evaluated
  after the first has run, and raises when \<open>cfg.extension\<close> is \<open>null\<close>.
\<close>

definition importUserConfig ::
  "extension \<Rightarrow> string \<Rightarrow> json \<Rightarrow> int \<Rightarrow> int \<Rightarrow> browser_storage \<Rightarrow> bool \<times> browser_storage" where
  "importUserConfig ext userId cfg t_settings t_custom st =
     (case cfg of
        JObj kvs \<Rightarrow>
          (case map_of kvs ''user'' of
             None \<Rightarrow> (False, st)
           | Some cfg_user \<Rightarrow>
          (case map_of kvs ''extension'' of
             None \<Rightarrow> (False, st)
           | Some cfg_extension \<Rightarrow>
               let st1 = saveSettings ext cfg_extension t_settings st in
               (case cfg_extension of
                  JNull \<Rightarrow> (False, st1)
                | JObj e \<Rightarrow> (True, saveCustom ext cfg_user userId (js_truthy (map_of e ''enableSync'')) t_custom st1)
                | _ \<Rightarrow> (True, saveCustom ext cfg_user userId False t_custom st1))))
      | _ \<Rightarrow> (False, st))"

subsection \<open>loadData and getDefaultUser\<close>

text \<open>
  \<open>users.sort((a, b) => (a.updatedAt > b.updatedAt ? -1 : 1))\<close>. \<open>Array.prototype.sort\<close> is
  the engine's. The comparator never answers \<open>0\<close>, and for a user without \<open>updatedAt\<close> it
  answers \<open>1\<close> whichever side the user is on, so it is not a consistent comparator and the
  order of the result is implementation-defined. The sort is therefore a parameter of
  \<open>loadData\<close>: a function of the comparator and the array.
\<close>

type_synonym 'a array_sort = "('a \<Rightarrow> 'a \<Rightarrow> int) \<Rightarrow> 'a list \<Rightarrow> fault + 'a list"

text \<open>
  The \<open>updatedAt\<close> of a loaded user is the number that \<open>saveData\<close> stamped on the stored
  record, a reading of \<open>Date.now()\<close>, or it is absent: for a listed user without a stored
  record \<open>loadUser\<close> returns an empty object with the customization attached. These are the
  time values; integers up to \<open>2^53\<close> in size are numbers of JavaScript as they are. A user
  record with any other \<open>updatedAt\<close> is not one that this code wrote, and \<open>loadData\<close> on such a
  store is outside the model.
\<close>

definition time_value :: "json option \<Rightarrow> bool" where
  "time_value v =
     (case v of
        None \<Rightarrow> True
      | Some (JNum n) \<Rightarrow> - 9007199254740992 \<le> n \<and> n \<le> 9007199254740992
      | Some _ \<Rightarrow> False)"

definition updatedAt_num :: "jobj \<Rightarrow> int option" where
  "updatedAt_num u = (case map_of u ''updatedAt'' of Some (JNum n) \<Rightarrow> Some n | _ \<Rightarrow> None)"

text \<open>
  \<open>a.updatedAt > b.updatedAt\<close> on time values: \<open>undefined\<close> converts to \<open>NaN\<close>, and every
  comparison with \<open>NaN\<close> is false.
\<close>

definition updatedAt_gt :: "jobj \<Rightarrow> jobj \<Rightarrow> bool" where
  "updatedAt_gt a b =
     (case updatedAt_num a of
        None \<Rightarrow> False
      | Some x \<Rightarrow> (case updatedAt_num b of None \<Rightarrow> False | Some y \<Rightarrow> x > y))"

definition users_cmp :: "jobj \<Rightarrow> jobj \<Rightarrow> int" where
  "users_cmp a b = (if updatedAt_gt a b then - 1 else 1)"

text \<open>\<open>[...new Set(ids)]\<close>: the first occurrence of each id, in order.\<close>

fun uniq_from :: "'a list \<Rightarrow> 'a list \<Rightarrow> 'a list" where
  "uniq_from seen [] = []"
| "uniq_from seen (x # xs) = (if x \<in> set seen then uniq_from seen xs else x # uniq_from (x # seen) xs)"

definition uniq :: "'a list \<Rightarrow> 'a list" where
  "uniq xs = uniq_from [] xs"

text \<open>
  \<open>u.appProfileIds\<close> as \<open>users.map((u) => u.appProfileIds).flat(1)\<close> takes it up: an array
  gives its elements, a user without the property gives \<open>undefined\<close> (\<open>None\<close>), and any
  other value stands for itself.
\<close>

definition user_appProfileIds :: "jobj \<Rightarrow> json option list" where
  "user_appProfileIds u =
     (case map_of u ''appProfileIds'' of
        None \<Rightarrow> [None]
      | Some (JArr xs) \<Rightarrow> map Some xs
      | Some v \<Rightarrow> [Some v])"

text \<open>
  \<open>storage.local.get(apId)\<close>, and \<open>ap[Object.keys(ap)[0]]\<close> of its answer. For a string the
  answer holds the item stored under that key, if there is one. For \<open>undefined\<close> and for
  \<open>null\<close> the browser answers with every item of the area, of which the code takes the
  first; the parameter \<open>local_keys\<close> lists the keys of the local area in the order in
  which \<open>Object.keys\<close> lists them on the browser's answer. What the browser does with a
  key of another type is outside the model.
\<close>

definition storage_key :: "json option \<Rightarrow> bool" where
  "storage_key k = (case k of None \<Rightarrow> True | Some JNull \<Rightarrow> True | Some (JStr s) \<Rightarrow> True | Some _ \<Rightarrow> False)"

definition first_item :: "string list \<Rightarrow> browser_storage \<Rightarrow> json option \<Rightarrow> json option" where
  "first_item local_keys st k =
     (case k of
        Some (JStr s) \<Rightarrow> storage_local st s
      | _ \<Rightarrow> (case List.map_filter (storage_local st) local_keys of [] \<Rightarrow> None | v # _ \<Rightarrow> Some v))"

record ExtensionData =
  data_updatedAt :: "json option"
  appProfiles :: "json list"
  settings :: jobj
  users :: "jobj list"
  iamLogins :: jobj

definition loadData ::
  "extension \<Rightarrow> jobj array_sort \<Rightarrow> string list \<Rightarrow> browser_storage \<Rightarrow> fault + ExtensionData" where
  "loadData ext engine_sort local_keys st =
     (case loadIamLogins ext st of
        Inl e \<Rightarrow> Inl e
      | Inr logins \<Rightarrow>
     (case loadSettings ext st of
        Inl e \<Rightarrow> Inl e
      | Inr stg \<Rightarrow>
     (case loadUsers ext (js_truthy (map_of stg ''enableSync'')) st of
        Inl e \<Rightarrow> Inl e
      | Inr loaded \<Rightarrow>
     if \<not> list_all (\<lambda>u. time_value (map_of u ''updatedAt'')) loaded then Inl IllTyped
     else
     (case engine_sort users_cmp loaded of
        Inl e \<Rightarrow> Inl e
      | Inr sorted_users \<Rightarrow>
     let uniqProfileIds = uniq (concat (map user_appProfileIds sorted_users)) in
     if \<not> list_all storage_key uniqProfileIds then Inl IllTyped
     else
     Inr \<lparr>data_updatedAt = (case sorted_users of [] \<Rightarrow> Some (JNum 0) | u # _ \<Rightarrow> map_of u ''updatedAt''),
          appProfiles = List.map_filter (first_item local_keys st) uniqProfileIds,
          settings = stg,
          users = sorted_users,
          iamLogins = logins\<rparr>))))"

definition getDefaultUser :: "ExtensionData \<Rightarrow> jobj option" where
  "getDefaultUser data =
     (if strict_eq (map_of (settings data) ''defaultUser'') (Some (JStr ''lastUserId''))
      then (case find (\<lambda>u. strict_eq (map_of u ''userId'') (map_of (settings data) ''lastUserId'')) (users data) of
              Some lastUser \<Rightarrow> Some lastUser
            | None \<Rightarrow> (case users data of [] \<Rightarrow> None | u # _ \<Rightarrow> Some u))
      else (case filter (\<lambda>u. strict_eq (map_of u ''userId'') (map_of (settings data) ''defaultUser'')) (users data) of
              [] \<Rightarrow> None
            | u # _ \<Rightarrow> Some u))"

section \<open>Profiles, URLs and navigation\<close>

text \<open>
  Modelled from the spec: the type declarations of \<open>../types\<close> (\<open>UserData\<close>, \<open>AppData\<close>,
  \<open>CustomData\<close>, \<open>ExtensionSettings\<close>), which the functions of this section are typed with
  and which are not part of the source file. The records hold the properties those
  functions read, under the source's names; \<open>id\<close> and \<open>name\<close> carry the name of their
  object, and an account entry's \<open>label\<close> and \<open>color\<close> carry \<open>account\<close>. An object used as a
  dictionary is a map. An optional property is an \<open>option\<close>.
\<close>

record IamRole =
  role_profileId :: string
  roleName :: string
  role_accountId :: string

record CustomData =
  favorite :: bool
  hide :: bool
  label :: "string option"
  iamRoles :: "IamRole list"
  color :: string

record AccountCustom =
  account_label :: "string option"
  account_color :: string

record UserCustom =
  accounts :: "string \<rightharpoonup> AccountCustom"
  accountsOverride :: bool
  colorDefault :: string
  profiles :: "string \<rightharpoonup> CustomData"

record UserData =
  userId :: string
  managedActiveDirectoryId :: string
  appProfileIds :: "string list"
  custom :: UserCustom

record SearchMetadata =
  AccountId :: string
  AccountName :: string

record Profile =
  profile_id :: string
  profile_name :: string
  profile_custom :: "CustomData option"

record AppData =
  app_id :: string
  app_name :: string
  applicationName :: string
  profile :: Profile
  searchMetadata :: "SearchMetadata option"

record ExtensionSettings =
  showAllProfiles :: bool
  firefoxContainers :: bool
  firefoxResumeContainer :: bool
  firefoxExpireMinsContainer :: int
  navCurrentTab :: bool

datatype platform = Chrome | Firefox | Safari

subsection \<open>customizeProfiles\<close>

text \<open>\<open>searchMetadata?.AccountId\<close> as a property key: \<open>undefined\<close> becomes the key of that name.\<close>

definition accountKey :: "AppData \<Rightarrow> string" where
  "accountKey ap = (case searchMetadata ap of None \<Rightarrow> ''undefined'' | Some m \<Rightarrow> AccountId m)"

text \<open>The body of the loop of \<open>customizeProfiles\<close>, for one profile.\<close>

definition customizeProfile :: "UserData \<Rightarrow> AppData \<Rightarrow> AppData" where
  "customizeProfile user ap =
     (let defaults = \<lparr>favorite = False, hide = False, label = None, iamRoles = [],
                      color = colorDefault (custom user)\<rparr>;
          c0 = (case profiles (custom user) (profile_id (profile ap)) of
                  Some c \<Rightarrow> c
                | None \<Rightarrow> defaults);
          c1 = (if applicationName ap = ''AWS Account''
                then (case accounts (custom user) (accountKey ap) of
                        Some account \<Rightarrow>
                          if accountsOverride (custom user) \<or> color c0 = colorDefault (custom user)
                          then c0\<lparr>color := account_color account\<rparr>
                          else c0
                      | None \<Rightarrow> c0)
                else c0)
      in ap\<lparr>profile := (profile ap)\<lparr>profile_custom := Some c1\<rparr>\<rparr>)"

definition customizeProfiles :: "UserData \<Rightarrow> AppData list \<Rightarrow> AppData list" where
  "customizeProfiles user aps = map (customizeProfile user) aps"

subsection \<open>Percent-encoding\<close>

definition is_alnum :: "char \<Rightarrow> bool" where
  "is_alnum c =
     (let n = (of_char c :: nat)
      in (65 \<le> n \<and> n \<le> 90) \<or> (97 \<le> n \<and> n \<le> 122) \<or> (48 \<le> n \<and> n \<le> 57))"

text \<open>The characters \<open>!\<close>, \<open>'\<close>, \<open>(\<close>, \<open>)\<close> and \<open>*\<close> of the pattern \<open>/[!'()*]/g\<close>.\<close>

definition is_paren_mark :: "char \<Rightarrow> bool" where
  "is_paren_mark c = (c \<in> set [CHR 0x21, CHR 0x27, CHR 0x28, CHR 0x29, CHR 0x2A])"

text \<open>What \<open>encodeURIComponent\<close> leaves as it is: letters, digits and \<open>- _ . ! ~ * ' ( )\<close>.\<close>

definition uri_unescaped :: "char \<Rightarrow> bool" where
  "uri_unescaped c = (is_alnum c \<or> c \<in> set ''-_.~'' \<or> is_paren_mark c)"

definition hex_upper :: "nat \<Rightarrow> char" where
  "hex_upper d = ''0123456789ABCDEF'' ! d"

definition hex_lower :: "nat \<Rightarrow> char" where
  "hex_lower d = ''0123456789abcdef'' ! d"

text \<open>
  \<open>encodeURIComponent\<close> on a string in UTF-8: every byte that is not left as it is becomes
  \<open>%\<close> and two upper-case hexadecimal digits. (A string of UTF-16 code units with an
  unpaired surrogate, on which the function raises \<open>URIError\<close>, has no UTF-8 form.)
\<close>

definition pct_encode :: "char \<Rightarrow> string" where
  "pct_encode c = [CHR ''%'', hex_upper ((of_char c :: nat) div 16), hex_upper ((of_char c :: nat) mod 16)]"

definition encodeURIComponent :: "string \<Rightarrow> string" where
  "encodeURIComponent s = concat (map (\<lambda>c. if uri_unescaped c then [c] else pct_encode c) s)"

text \<open>\<open>Number.prototype.toString(16)\<close>: lower-case digits, no padding.\<close>

fun toString16 :: "nat \<Rightarrow> string" where
  "toString16 n = (if n < 16 then [hex_lower n] else toString16 (n div 16) @ [hex_lower (n mod 16)])"

declare toString16.simps [simp del]

definition encodeUriPlusParens :: "string \<Rightarrow> string" where
  "encodeUriPlusParens str =
     concat (map (\<lambda>c. if is_paren_mark c then CHR ''%'' # toString16 (of_char c) else [c])
               (encodeURIComponent str))"

subsection \<open>The console URL pattern\<close>

text \<open>
  The regular expressions this module needs: a literal, a run of \<open>lo\<close> to \<open>hi\<close> characters
  of a class (\<open>None\<close>: unbounded), sequence, alternative and option. \<open>rx_rest r s\<close> lists
  what can remain of \<open>s\<close> after a prefix that \<open>r\<close> matches, longest choice first as the
  backtracking matcher tries them. A pattern between \<open>^\<close> and \<open>$\<close> matches when nothing
  can remain.
\<close>

datatype rx =
    Lit string
  | Many "char \<Rightarrow> bool" nat "nat option"
  | Seq rx rx
  | Alt rx rx
  | Opt rx

fun rx_rest :: "rx \<Rightarrow> string \<Rightarrow> string list" where
  "rx_rest (Lit l) s = (if prefix l s then [drop (length l) s] else [])"
| "rx_rest (Many cls lo hi) s =
     (let n = length (takeWhile cls s);
          m = (case hi of None \<Rightarrow> n | Some h \<Rightarrow> min h n)
      in map (\<lambda>k. drop k s) (rev [lo..<Suc m]))"
| "rx_rest (Seq a b) s = concat (map (rx_rest b) (rx_rest a s))"
| "rx_rest (Alt a b) s = rx_rest a s @ rx_rest b s"
| "rx_rest (Opt a) s = rx_rest a s @ [s]"

definition rx_match :: "rx \<Rightarrow> string \<Rightarrow> bool" where
  "rx_match r s = ([] \<in> set (rx_rest r s))"

text \<open>\<open>\w\<close>, \<open>\d\<close> and, on bytes, \<open>.\<close> (anything but a line feed or a carriage return).\<close>

definition rx_word :: "char \<Rightarrow> bool" where
  "rx_word c = (is_alnum c \<or> c = CHR ''_'')"

definition rx_digit :: "char \<Rightarrow> bool" where
  "rx_digit c = (let n = (of_char c :: nat) in 48 \<le> n \<and> n \<le> 57)"

definition rx_dot :: "char \<Rightarrow> bool" where
  "rx_dot c = (c \<noteq> CHR 0x0A \<and> c \<noteq> CHR 0x0D)"

text \<open>\<open>(?<region>\w{2}-\w+-\d{1,2})\<close>\<close>

definition region_rx :: rx where
  "region_rx =
     Seq (Many rx_word 2 (Some 2))
       (Seq (Lit ''-'') (Seq (Many rx_word 1 None) (Seq (Lit ''-'') (Many rx_digit 1 (Some 2)))))"

text \<open>
  \<open>/^https:\/\/(((?<region>\w{2}-\w+-\d{1,2})|support|s3|health)\.console\.aws\.amazon|console\.amazonaws-us-gov)\.com\/(?<path>.*)?$/\<close>
\<close>

definition consoleUrlRegex :: rx where
  "consoleUrlRegex =
     Seq (Lit ''https://'')
       (Seq (Alt (Seq (Alt region_rx (Alt (Lit ''support'') (Alt (Lit ''s3'') (Lit ''health''))))
                      (Lit ''.console.aws.amazon''))
                 (Lit ''console.amazonaws-us-gov''))
            (Seq (Lit ''.com/'') (Opt (Many rx_dot 0 None))))"

text \<open>
  \<open>.\<close> rejects the separators U+2028 and U+2029 as well, which are three bytes each in
  UTF-8; only the path part of the pattern can hold them.
\<close>

fun contains :: "string \<Rightarrow> string \<Rightarrow> bool" where
  "contains sub [] = (sub = [])"
| "contains sub (c # cs) = (prefix sub (c # cs) \<or> contains sub cs)"

definition url_matches_console :: "string \<Rightarrow> bool" where
  "url_matches_console url =
     (rx_match consoleUrlRegex url
      \<and> \<not> contains [CHR 0xE2, CHR 0x80, CHR 0xA8] url
      \<and> \<not> contains [CHR 0xE2, CHR 0x80, CHR 0xA9] url)"

subsection \<open>createProfileUrl\<close>

record tab =
  tab_url :: "string option"

text \<open>
  \<open>tabs\<close> is what \<open>browser.tabs.query({currentWindow: true, active: true})\<close> answers; the
  function reads its first element only on the console branch, and reading the \<open>url\<close> of a
  missing first element raises.
\<close>

definition createProfileUrl :: "UserData \<Rightarrow> AppData \<Rightarrow> tab list \<Rightarrow> fault + string" where
  "createProfileUrl user appProfile tabs =
     (let ssoDirUrl = ''https://'' @ managedActiveDirectoryId user @ ''.awsapps.com/start/#/saml'';
          appProfileName = encodeUriPlusParens (app_name appProfile)
      in if profile_name (profile appProfile) = ''Default''
         then Inr (ssoDirUrl @ ''/default/'' @ appProfileName @ ''/'' @ app_id appProfile)
         else
           let consoleUrl = ''https://'' @ managedActiveDirectoryId user
                 @ ''.awsapps.com/start/#/console?account_id='' @ accountKey appProfile
                 @ ''&role_name='' @ profile_name (profile appProfile)
           in (case tabs of
                 [] \<Rightarrow> Inl TypeError
               | currentTab # _ \<Rightarrow>
                   (case tab_url currentTab of
                      None \<Rightarrow> Inr consoleUrl
                    | Some url \<Rightarrow>
                        if url_matches_console url
                        then Inr (consoleUrl @ ''&destination='' @ encodeURIComponent url)
                        else Inr consoleUrl)))"

subsection \<open>findUserByProfileId and navSelectedProfile\<close>

text \<open>
  \<open>findUserByProfileId\<close>: \<open>user\<close> starts as \<open>users[0]\<close> (\<open>undefined\<close> for an empty list) and is
  assigned every user of the list that owns the profile id, in order.
\<close>

definition findUserByProfileId :: "string \<Rightarrow> UserData list \<Rightarrow> UserData option" where
  "findUserByProfileId profileId us =
     fold (\<lambda>u user. if profileId \<in> set (appProfileIds u) then Some u else user) us
       (case us of [] \<Rightarrow> None | u # _ \<Rightarrow> Some u)"

text \<open>The user that \<open>navSelectedProfile\<close> builds the URL for.\<close>

definition navSelectedProfile_user ::
  "AppData \<Rightarrow> UserData \<Rightarrow> UserData list \<Rightarrow> ExtensionSettings \<Rightarrow> UserData option" where
  "navSelectedProfile_user prof user us stg =
     (if showAllProfiles stg \<and> profile_id (profile prof) \<notin> set (appProfileIds user)
      then findUserByProfileId (profile_id (profile prof)) us
      else Some user)"

datatype nav_action = FocusContainerTabs | UpdateCurrentTab string | CreateTab string

text \<open>
  \<open>sessionLabelSso\<close> gives the name the containers are queried by. It reads
  \<open>profile.profile.custom.label\<close> and, for a profile of the AWS-account type,
  \<open>profile.searchMetadata.AccountId\<close>; either read raises when the object is missing.
\<close>

definition sessionLabelSso_raises :: "AppData \<Rightarrow> bool" where
  "sessionLabelSso_raises prof =
     (profile_custom (profile prof) = None
      \<or> (applicationName prof = ''AWS Account'' \<and> searchMetadata prof = None))"

text \<open>
  \<open>navSelectedProfile\<close>. \<open>tabs\<close> answers the query for the active tab. \<open>containers\<close> answers
  \<open>contextualIdentities.query\<close> for the session label, each container given by the tabs
  that the query for its cookie store answers. The result is the user the URL was built
  for and what the function does with the URL.
\<close>

definition navSelectedProfile ::
  "platform \<Rightarrow> AppData \<Rightarrow> UserData \<Rightarrow> UserData list \<Rightarrow> ExtensionSettings \<Rightarrow> tab list \<Rightarrow> tab list list
     \<Rightarrow> fault + (UserData \<times> nav_action)" where
  "navSelectedProfile pf prof user us stg tabs containers =
     (case navSelectedProfile_user prof user us stg of
        None \<Rightarrow> Inl TypeError
      | Some user' \<Rightarrow>
     (case createProfileUrl user' prof tabs of
        Inl e \<Rightarrow> Inl e
      | Inr profileUrl \<Rightarrow>
     let open_tab = (if navCurrentTab stg then UpdateCurrentTab profileUrl else CreateTab profileUrl)
     in if pf = Firefox \<and> firefoxContainers stg
        then (if firefoxResumeContainer stg
              then (if sessionLabelSso_raises prof then Inl TypeError
                    else (case containers of
                            [] \<Rightarrow> Inr (user', open_tab)
                          | container_tabs # _ \<Rightarrow>
                              if container_tabs = [] then Inr (user', open_tab)
                              else Inr (user', FocusContainerTabs)))
              else Inr (user', open_tab))
        else Inr (user', open_tab)))"

section \<open>The words of the specification\<close>

text \<open>
  The words of the specification for the owner of a profile: the first user of the list
  whose \<open>appProfileIds\<close> contains the id.
\<close>

definition owns :: "string \<Rightarrow> UserData \<Rightarrow> bool" where
  "owns profileId u = (profileId \<in> set (appProfileIds u))"

definition spec_first_owner :: "string \<Rightarrow> UserData list \<Rightarrow> UserData option" where
  "spec_first_owner profileId us = find (owns profileId) us"

text \<open>
  The words of the specification for the encoding of the profile name: a character of
  RFC 3986's unreserved set (letters, digits, \<open>- . _ ~\<close>) stands for itself.
\<close>

definition rfc3986_unreserved :: "char \<Rightarrow> bool" where
  "rfc3986_unreserved c = (is_alnum c \<or> c \<in> set ''-._~'')"

text \<open>
  The usual meaning of a regular expression, as the set of strings it matches, and the
  words of the specification for the console pattern: \<open>https://\<close>, a console host,
  \<open>.com/\<close> and a path on one line. A console host is the GovCloud console domain or a
  region, \<open>support\<close>, \<open>s3\<close> or \<open>health\<close> subdomain of \<open>console.aws.amazon\<close>.
\<close>

fun lang :: "rx \<Rightarrow> string set" where
  "lang (Lit l) = {l}"
| "lang (Many cls lo hi) =
     {w. list_all cls w \<and> lo \<le> length w \<and> (case hi of None \<Rightarrow> True | Some h \<Rightarrow> length w \<le> h)}"
| "lang (Seq a b) = {u @ v | u v. u \<in> lang a \<and> v \<in> lang b}"
| "lang (Alt a b) = lang a \<union> lang b"
| "lang (Opt a) = insert [] (lang a)"

definition spec_region :: "string \<Rightarrow> bool" where
  "spec_region sub =
     (\<exists>a b d. sub = a @ ''-'' @ b @ ''-'' @ d
        \<and> length a = 2 \<and> list_all rx_word a
        \<and> b \<noteq> [] \<and> list_all rx_word b
        \<and> (length d = 1 \<or> length d = 2) \<and> list_all rx_digit d)"

definition spec_console_host :: "string \<Rightarrow> bool" where
  "spec_console_host host =
     (host = ''console.amazonaws-us-gov''
      \<or> (\<exists>sub. host = sub @ ''.console.aws.amazon''
            \<and> (sub = ''support'' \<or> sub = ''s3'' \<or> sub = ''health'' \<or> spec_region sub)))"

definition spec_single_line :: "string \<Rightarrow> bool" where
  "spec_single_line path =
     (CHR 0x0A \<notin> set path \<and> CHR 0x0D \<notin> set path
      \<and> \<not> contains [CHR 0xE2, CHR 0x80, CHR 0xA8] path
      \<and> \<not> contains [CHR 0xE2, CHR 0x80, CHR 0xA9] path)"

definition spec_console_url :: "string \<Rightarrow> bool" where
  "spec_console_url url =
     (\<exists>host path. url = ''https://'' @ host @ ''.com/'' @ path
        \<and> spec_console_host host \<and> spec_single_line path)"

section \<open>Engines\<close>

text \<open>
  The sort of the V8 engine (Chrome) for an array of fewer than 64 elements, for which the
  minimal run length is the length of the array. The run at the start of the array is
  counted: it descends when the comparator puts the second element strictly before the
  first, and it goes on while the comparator says the same of every next element and the
  one before it; a descending run is reversed. Every later element is then inserted into
  the part before it at the place a binary search gives. Longer arrays, which V8 sorts by
  merging several such runs, are not covered.
\<close>

fun count_run :: "('a \<Rightarrow> 'a \<Rightarrow> int) \<Rightarrow> bool \<Rightarrow> 'a \<Rightarrow> 'a list \<Rightarrow> nat" where
  "count_run cmp descending previous [] = 0"
| "count_run cmp descending previous (x # xs) =
     (if (cmp x previous < 0) = descending then Suc (count_run cmp descending x xs) else 0)"

definition count_and_make_run :: "('a \<Rightarrow> 'a \<Rightarrow> int) \<Rightarrow> 'a list \<Rightarrow> 'a list \<times> 'a list" where
  "count_and_make_run cmp xs =
     (case xs of
        x0 # x1 # rest \<Rightarrow>
          let descending = cmp x1 x0 < 0;
              n = 2 + count_run cmp descending x1 rest
          in (if descending then rev (take n xs) else take n xs, drop n xs)
      | _ \<Rightarrow> (xs, []))"

function binary_search :: "('a \<Rightarrow> 'a \<Rightarrow> int) \<Rightarrow> 'a \<Rightarrow> 'a list \<Rightarrow> nat \<Rightarrow> nat \<Rightarrow> nat" where
  "binary_search cmp pivot xs left right =
     (if left < right
      then let mid = left + (right - left) div 2
           in if cmp pivot (xs ! mid) < 0 then binary_search cmp pivot xs left mid
              else binary_search cmp pivot xs (mid + 1) right
      else left)"
  by pat_completeness auto
termination
  by (relation "measure (\<lambda>(cmp, pivot, xs, left, right). right - left)") auto

fun binary_insertion :: "('a \<Rightarrow> 'a \<Rightarrow> int) \<Rightarrow> 'a list \<Rightarrow> 'a list \<Rightarrow> 'a list" where
  "binary_insertion cmp run [] = run"
| "binary_insertion cmp run (pivot # rest) =
     (let left = binary_search cmp pivot run 0 (length run)
      in binary_insertion cmp (take left run @ pivot # drop left run) rest)"

definition v8_sort :: "'a array_sort" where
  "v8_sort cmp xs =
     (if 64 \<le> length xs then Inl IllTyped
      else let (run, rest) = count_and_make_run cmp xs in Inr (binary_insertion cmp run rest))"

section \<open>Example states\<close>

text \<open>An instance named \<open>sso\<close>, an empty store, and a store with partial records.\<close>

definition demo_ext :: extension where
  "demo_ext = new_Extension ''sso''"

definition demo_empty :: browser_storage where
  "demo_empty = \<lparr>storage_local = Map.empty, storage_sync = Map.empty\<rparr>"

definition demo_partial :: browser_storage where
  "demo_partial =
     \<lparr>storage_local = Map.empty,
      storage_sync =
        [''sso-settings'' \<mapsto> JObj [(''iconColor'', JStr ''blue''), (''updatedAt'', JNum 7)],
         ''sso-custom-alice'' \<mapsto> JObj [(''colorDefault'', JStr ''000000'')]]\<rparr>"

text \<open>The example of the specification: default colour \<open>222f3e\<close>, account \<open>111111111111\<close> coloured \<open>ff0000\<close>.\<close>

definition demo_custom :: UserCustom where
  "demo_custom =
     \<lparr>accounts = [''111111111111'' \<mapsto> \<lparr>account_label = None, account_color = ''ff0000''\<rparr>],
      accountsOverride = False,
      colorDefault = ''222f3e'',
      profiles =
        [''p-default'' \<mapsto> \<lparr>favorite = False, hide = False, label = None, iamRoles = [], color = ''222f3e''\<rparr>,
         ''p-green'' \<mapsto> \<lparr>favorite = True, hide = False, label = None, iamRoles = [], color = ''00ff00''\<rparr>]\<rparr>"

definition demo_user :: UserData where
  "demo_user =
     \<lparr>userId = ''alice'', managedActiveDirectoryId = ''d-1234567890'',
      appProfileIds = [''p-default'', ''p-green''], custom = demo_custom\<rparr>"

definition demo_app :: "string \<Rightarrow> string \<Rightarrow> AppData" where
  "demo_app pid pname =
     \<lparr>app_id = ''ins-1'', app_name = ''Prod (main)*'', applicationName = ''AWS Account'',
      profile = \<lparr>profile_id = pid, profile_name = pname, profile_custom = None\<rparr>,
      searchMetadata = Some \<lparr>AccountId = ''111111111111'', AccountName = ''prod''\<rparr>\<rparr>"

text \<open>A user who owns the profile \<open>p-shared\<close>; \<open>demo_user\<close> does not own it.\<close>

definition demo_owner :: "string \<Rightarrow> UserData" where
  "demo_owner uid =
     \<lparr>userId = uid, managedActiveDirectoryId = ''d-'' @ uid,
      appProfileIds = [''p-shared''], custom = demo_custom\<rparr>"

definition demo_nav_settings :: ExtensionSettings where
  "demo_nav_settings =
     \<lparr>showAllProfiles = True, firefoxContainers = False, firefoxResumeContainer = True,
      firefoxExpireMinsContainer = 480, navCurrentTab = False\<rparr>"

text \<open>Three profiles of the account: default colour, own colour, no entry of its own.\<close>

definition demo_profiles :: "AppData list" where
  "demo_profiles = [demo_app ''p-default'' ''Admin'', demo_app ''p-green'' ''Admin'', demo_app ''p-new'' ''Admin'']"

text \<open>A tab that shows a URL.\<close>

definition demo_tab :: "string \<Rightarrow> tab" where
  "demo_tab url = \<lparr>tab_url = Some url\<rparr>"

text \<open>
  A store with two users: \<open>alice\<close> owns \<open>p-1\<close> and \<open>p-2\<close>, \<open>bob\<close>, updated later, owns
  \<open>p-2\<close> and \<open>p-3\<close>. No record is stored for \<open>p-2\<close>. \<open>alice\<close> is the last and the default
  user, and has a remembered IAM login for \<open>p-1\<close>.
\<close>

definition demo_store :: browser_storage where
  "demo_store =
     \<lparr>storage_local =
        [''p-1'' \<mapsto> JObj [(''applicationName'', JStr ''AWS Account''), (''updatedAt'', JNum 3)],
         ''p-3'' \<mapsto> JObj [(''applicationName'', JStr ''Wiki''), (''updatedAt'', JNum 8)],
         ''sso-iam-logins'' \<mapsto>
            JObj [(''p-1'', JObj [(''profileId'', JStr ''p-1''), (''roleName'', JStr ''ops'')]),
                  (''p-3'', JObj [(''profileId'', JStr ''p-3''), (''roleName'', JStr ''dev'')]),
                  (''updatedAt'', JNum 6)]],
      storage_sync =
        [''sso-users'' \<mapsto> JObj [(''users'', JArr [JStr ''alice'', JStr ''bob'']), (''updatedAt'', JNum 9)],
         ''sso-user-alice'' \<mapsto>
            JObj [(''userId'', JStr ''alice''), (''appProfileIds'', JArr [JStr ''p-1'', JStr ''p-2'']),
                  (''custom'', JObj []), (''updatedAt'', JNum 4)],
         ''sso-user-bob'' \<mapsto>
            JObj [(''userId'', JStr ''bob''), (''appProfileIds'', JArr [JStr ''p-2'', JStr ''p-3'']),
                  (''custom'', JObj []), (''updatedAt'', JNum 9)],
         ''sso-settings'' \<mapsto>
            JObj [(''defaultUser'', JStr ''alice''), (''lastUserId'', JStr ''alice''), (''updatedAt'', JNum 5)]]\<rparr>"

text \<open>A user object as \<open>saveUser\<close> receives it, with its customization.\<close>

definition demo_user_object :: jobj where
  "demo_user_object =
     [(''userId'', JStr ''carol''),
      (''managedActiveDirectoryId'', JStr ''d-1234567890''),
      (''appProfileIds'', JArr [JStr ''p-7'']),
      (''custom'', JObj [(''colorDefault'', JStr ''00ff00''), (''labelIcon'', JBool True)]),
      (''updatedAt'', JNum 2)]"

text \<open>An imported configuration that has both keys, with \<open>extension: null\<close>.\<close>

definition demo_cfg_null :: json where
  "demo_cfg_null = JObj [(''user'', JObj [(''colorDefault'', JStr ''00ff00'')]), (''extension'', JNull)]"

text \<open>An imported configuration with both keys and settings that turn sync off.\<close>

definition demo_cfg :: json where
  "demo_cfg =
     JObj [(''user'', JObj [(''colorDefault'', JStr ''00ff00'')]),
           (''extension'', JObj [(''enableSync'', JBool False), (''iconColor'', JStr ''blue'')])]"

text \<open>
  A store in which \<open>alice\<close> was saved with sync on: her record is in the sync area, and the
  local area is empty.
\<close>

definition demo_synced :: browser_storage where
  "demo_synced =
     \<lparr>storage_local = Map.empty,
      storage_sync =
        [''sso-users'' \<mapsto> JObj [(''users'', JArr [JStr ''alice'']), (''updatedAt'', JNum 9)],
         ''sso-user-alice'' \<mapsto>
            JObj [(''userId'', JStr ''alice''), (''appProfileIds'', JArr [JStr ''p-1'']),
                  (''custom'', JObj []), (''updatedAt'', JNum 4)]]\<rparr>"

text \<open>
  That store after \<open>importUserConfig\<close> has imported \<open>demo_cfg\<close> for \<open>alice\<close> at the times 20
  and 21: the settings now turn sync off, and the imported customization is the one item
  of the local area. \<open>alice\<close> is listed, and the local area has no record of her.
\<close>

definition demo_unsynced :: browser_storage where
  "demo_unsynced =
     \<lparr>storage_local =
        [''sso-custom-alice'' \<mapsto> JObj [(''colorDefault'', JStr ''00ff00''), (''updatedAt'', JNum 21)]],
      storage_sync =
        [''sso-users'' \<mapsto> JObj [(''users'', JArr [JStr ''alice'']), (''updatedAt'', JNum 9)],
         ''sso-user-alice'' \<mapsto>
            JObj [(''userId'', JStr ''alice''), (''appProfileIds'', JArr [JStr ''p-1'']),
                  (''custom'', JObj []), (''updatedAt'', JNum 4)],
         ''sso-settings'' \<mapsto>
            JObj [(''enableSync'', JBool False), (''iconColor'', JStr ''blue''), (''updatedAt'', JNum 20)]]\<rparr>"

text \<open>What \<open>loadData\<close> returns on it in Chrome.\<close>

definition demo_unsynced_data :: "fault + ExtensionData" where
  "demo_unsynced_data = loadData demo_ext v8_sort [''sso-custom-alice''] demo_unsynced"

text \<open>
  A store that lists three users, \<open>ann\<close>, \<open>ben\<close> and \<open>cy\<close>, in this order. \<open>ann\<close> was
  updated at 5 and \<open>cy\<close> at 10; no record is stored for \<open>ben\<close>. No settings are stored,
  and the local area is empty.
\<close>

definition demo_mixed :: browser_storage where
  "demo_mixed =
     \<lparr>storage_local = Map.empty,
      storage_sync =
        [''sso-users'' \<mapsto> JObj [(''users'', JArr [JStr ''ann'', JStr ''ben'', JStr ''cy'']), (''updatedAt'', JNum 11)],
         ''sso-user-ann'' \<mapsto>
            JObj [(''userId'', JStr ''ann''), (''appProfileIds'', JArr []), (''custom'', JObj []), (''updatedAt'', JNum 5)],
         ''sso-user-cy'' \<mapsto>
            JObj [(''userId'', JStr ''cy''), (''appProfileIds'', JArr []), (''custom'', JObj []), (''updatedAt'', JNum 10)]]\<rparr>"

text \<open>A user of that store as \<open>loadUser\<close> returns it, and the object it returns for \<open>ben\<close>.\<close>

definition demo_loaded :: "string \<Rightarrow> int \<Rightarrow> jobj" where
  "demo_loaded uid t =
     [(''userId'', JStr uid), (''appProfileIds'', JArr []), (''custom'', JObj hardcoded_defaultCustom),
      (''updatedAt'', JNum t)]"

definition demo_recordless :: jobj where
  "demo_recordless = [(''custom'', JObj hardcoded_defaultCustom)]"

section \<open>Properties\<close>

lemma backfill_step_map_of:
  "map_of (fold (\<lambda>key acc.
             if map_of acc key = None
             then (case map_of defaults key of Some v \<Rightarrow> AList.update key v acc | None \<Rightarrow> acc)
             else acc) ks obj) k =
   (case map_of obj k of
      Some v \<Rightarrow> Some v
    | None \<Rightarrow> if k \<in> set ks then map_of defaults k else None)"
proof (induction ks arbitrary: obj)
  case Nil
  show ?case by (simp split: option.splits)
next
  case (Cons a ks)
  show ?case
    by (simp add: Cons.IH update_conv' split: option.splits)
qed

lemma map_of_backfill:
  "map_of (backfill defaults obj) k =
   (case map_of obj k of Some v \<Rightarrow> Some v | None \<Rightarrow> map_of defaults k)"
proof -
  have "k \<notin> set (map fst defaults) \<Longrightarrow> map_of defaults k = None"
    by (simp add: map_of_eq_None_iff)
  then show ?thesis
    unfolding backfill_def backfill_step_map_of
    by (auto split: option.splits)
qed

lemma demo_keys:
  "settingsKey demo_ext = ''sso-settings''" "usersKey demo_ext = ''sso-users''"
  "loginsKey demo_ext = ''sso-iam-logins''"
  "userKey demo_ext uid = ''sso-user-'' @ uid" "customKey demo_ext uid = ''sso-custom-'' @ uid"
  "defaultSettings demo_ext = hardcoded_defaultSettings" "defaultCustom demo_ext = hardcoded_defaultCustom"
  by (simp_all add: settingsKey_def usersKey_def loginsKey_def userKey_def customKey_def demo_ext_def new_Extension_def)

subsection \<open>Defaults and backfill\<close>

lemma fold_backfill_id:
  "\<forall>k\<in>set ks. map_of acc k \<noteq> None \<Longrightarrow>
   fold (\<lambda>key acc.
             if map_of acc key = None
             then (case map_of defaults key of Some v \<Rightarrow> AList.update key v acc | None \<Rightarrow> acc)
             else acc) ks acc = acc"
  by (induction ks) auto

lemma backfill_self: "backfill d d = d"
  unfolding backfill_def
  by (rule fold_backfill_id) (auto simp: map_of_eq_None_iff)

lemma loadSettings_none:
  "storage_sync st (settingsKey ext) = None \<Longrightarrow> loadSettings ext st = Inr (defaultSettings ext)"
  by (simp add: loadSettings_def backfill_self)

lemma loadSettings_stored:
  "storage_sync st (settingsKey ext) = Some (JObj rec) \<Longrightarrow>
   loadSettings ext st = Inr (backfill (defaultSettings ext) rec)"
  by (simp add: loadSettings_def)

lemma loadUser_custom_none:
  "area_get (select_area es) st (customKey ext uid) = None \<Longrightarrow>
   loadUser_custom ext uid es st = Inr (defaultCustom ext)"
  by (simp add: loadUser_custom_def backfill_self)

lemma loadUser_custom_stored:
  "area_get (select_area es) st (customKey ext uid) = Some (JObj rec) \<Longrightarrow>
   loadUser_custom ext uid es st = Inr (backfill (defaultCustom ext) rec)"
  by (simp add: loadUser_custom_def)

lemma loadUser_Inr:
  "loadUser ext uid es st = Inr u \<Longrightarrow>
   \<exists>c. loadUser_custom ext uid es st = Inr c \<and> map_of u ''custom'' = Some (JObj c)"
  by (auto simp: loadUser_def update_conv' split: option.splits json.splits sum.splits)

lemma loadUser_returns:
  "area_get (select_area es) st (userKey ext uid) = None
     \<or> area_get (select_area es) st (userKey ext uid) = Some (JObj urec) \<Longrightarrow>
   loadUser_custom ext uid es st = Inr c \<Longrightarrow>
   \<exists>u. loadUser ext uid es st = Inr u \<and> map_of u ''custom'' = Some (JObj c)"
  by (auto simp: loadUser_def update_conv')

text \<open>
  C5. Loading the settings, or the customization of a user, when no record is stored yields
  the instance's default record, which is the hard-coded record from construction on.
  Loading a stored record yields, for every key, the stored value when the record has the
  key and the default's value when it has not; no stored value changes. \<open>loadUser\<close>
  returns whenever the user record is absent or an object.
\<close>

theorem load_defaults_and_backfill:
  "(storage_sync st (settingsKey ext) = None \<longrightarrow> loadSettings ext st = Inr (defaultSettings ext))
   \<and> (storage_sync st (settingsKey ext) = Some (JObj rec) \<longrightarrow>
        (\<exists>s. loadSettings ext st = Inr s
           \<and> (\<forall>k. map_of s k = (case map_of rec k of Some v \<Rightarrow> Some v | None \<Rightarrow> map_of (defaultSettings ext) k))))
   \<and> ((area_get (select_area es) st (userKey ext uid) = None
         \<or> area_get (select_area es) st (userKey ext uid) = Some (JObj urec)) \<longrightarrow>
        (area_get (select_area es) st (customKey ext uid) = None \<longrightarrow>
           (\<exists>u. loadUser ext uid es st = Inr u \<and> map_of u ''custom'' = Some (JObj (defaultCustom ext))))
        \<and> (area_get (select_area es) st (customKey ext uid) = Some (JObj crec) \<longrightarrow>
           (\<exists>u c. loadUser ext uid es st = Inr u \<and> map_of u ''custom'' = Some (JObj c)
              \<and> (\<forall>k. map_of c k = (case map_of crec k of Some v \<Rightarrow> Some v | None \<Rightarrow> map_of (defaultCustom ext) k)))))
   \<and> defaultSettings (new_Extension name) = hardcoded_defaultSettings
   \<and> defaultCustom (new_Extension name) = hardcoded_defaultCustom"
proof (intro conjI impI)
  assume "storage_sync st (settingsKey ext) = None"
  then show "loadSettings ext st = Inr (defaultSettings ext)" by (rule loadSettings_none)
next
  assume "storage_sync st (settingsKey ext) = Some (JObj rec)"
  then show "\<exists>s. loadSettings ext st = Inr s
           \<and> (\<forall>k. map_of s k = (case map_of rec k of Some v \<Rightarrow> Some v | None \<Rightarrow> map_of (defaultSettings ext) k))"
    by (simp add: loadSettings_stored map_of_backfill)
next
  assume ur: "area_get (select_area es) st (userKey ext uid) = None
         \<or> area_get (select_area es) st (userKey ext uid) = Some (JObj urec)"
    and "area_get (select_area es) st (customKey ext uid) = None"
  then have "loadUser_custom ext uid es st = Inr (defaultCustom ext)"
    by (simp add: loadUser_custom_none)
  with ur show "\<exists>u. loadUser ext uid es st = Inr u \<and> map_of u ''custom'' = Some (JObj (defaultCustom ext))"
    by (rule loadUser_returns)
next
  assume ur: "area_get (select_area es) st (userKey ext uid) = None
         \<or> area_get (select_area es) st (userKey ext uid) = Some (JObj urec)"
    and "area_get (select_area es) st (customKey ext uid) = Some (JObj crec)"
  then have "loadUser_custom ext uid es st = Inr (backfill (defaultCustom ext) crec)"
    by (simp add: loadUser_custom_stored)
  with ur have "\<exists>u. loadUser ext uid es st = Inr u
      \<and> map_of u ''custom'' = Some (JObj (backfill (defaultCustom ext) crec))"
    by (rule loadUser_returns)
  then show "\<exists>u c. loadUser ext uid es st = Inr u \<and> map_of u ''custom'' = Some (JObj c)
              \<and> (\<forall>k. map_of c k = (case map_of crec k of Some v \<Rightarrow> Some v | None \<Rightarrow> map_of (defaultCustom ext) k))"
    by (metis map_of_backfill)
qed (simp_all add: new_Extension_def)

theorem load_defaults_and_backfill_witness:
  "loadSettings demo_ext demo_empty = Inr hardcoded_defaultSettings
   \<and> (\<exists>s. loadSettings demo_ext demo_partial = Inr s
        \<and> map_of s ''iconColor'' = Some (JStr ''blue'')
        \<and> map_of s ''enableSync'' = Some (JBool True))
   \<and> (\<exists>u. loadUser demo_ext ''bob'' True demo_partial = Inr u
        \<and> map_of u ''custom'' = Some (JObj hardcoded_defaultCustom))
   \<and> (\<exists>u c. loadUser demo_ext ''alice'' True demo_partial = Inr u
        \<and> map_of u ''custom'' = Some (JObj c)
        \<and> map_of c ''colorDefault'' = Some (JStr ''000000'')
        \<and> map_of c ''labelIcon'' = Some (JBool False))"
proof -
  note thm1 = load_defaults_and_backfill [of demo_empty demo_ext _ True "''bob''" _ _ "''sso''"]
  note thm2 = load_defaults_and_backfill
    [of demo_partial demo_ext "[(''iconColor'', JStr ''blue''), (''updatedAt'', JNum 7)]" True "''bob''" "[]" "[]" "''sso''"]
  note thm3 = load_defaults_and_backfill
    [of demo_partial demo_ext _ True "''alice''" "[]" "[(''colorDefault'', JStr ''000000'')]" "''sso''"]
  have a: "loadSettings demo_ext demo_empty = Inr hardcoded_defaultSettings"
    using thm1 by (simp add: demo_ext_def demo_empty_def settingsKey_def new_Extension_def)
  have "\<exists>s. loadSettings demo_ext demo_partial = Inr s
           \<and> (\<forall>k. map_of s k = (case map_of [(''iconColor'', JStr ''blue''), (''updatedAt'', JNum 7)] k of
                  Some v \<Rightarrow> Some v | None \<Rightarrow> map_of (defaultSettings demo_ext) k))"
    using thm2 by (simp add: demo_ext_def demo_partial_def settingsKey_def new_Extension_def)
  then obtain s where s: "loadSettings demo_ext demo_partial = Inr s"
    and sk: "\<And>k. map_of s k = (case map_of [(''iconColor'', JStr ''blue''), (''updatedAt'', JNum 7)] k of
                  Some v \<Rightarrow> Some v | None \<Rightarrow> map_of (defaultSettings demo_ext) k)"
    by blast
  have b: "\<exists>s. loadSettings demo_ext demo_partial = Inr s
        \<and> map_of s ''iconColor'' = Some (JStr ''blue'')
        \<and> map_of s ''enableSync'' = Some (JBool True)"
    using s sk [of "''iconColor''"] sk [of "''enableSync''"]
    by (simp add: demo_ext_def new_Extension_def hardcoded_defaultSettings_def)
  have c: "\<exists>u. loadUser demo_ext ''bob'' True demo_partial = Inr u
        \<and> map_of u ''custom'' = Some (JObj hardcoded_defaultCustom)"
    using thm2
    by (simp add: demo_ext_def demo_partial_def new_Extension_def userKey_def customKey_def
        select_area_def area_get_def)
  have "\<exists>u c. loadUser demo_ext ''alice'' True demo_partial = Inr u \<and> map_of u ''custom'' = Some (JObj c)
              \<and> (\<forall>k. map_of c k = (case map_of [(''colorDefault'', JStr ''000000'')] k of
                     Some v \<Rightarrow> Some v | None \<Rightarrow> map_of (defaultCustom demo_ext) k))"
    using thm3
    by (simp add: demo_ext_def demo_partial_def new_Extension_def userKey_def customKey_def
        select_area_def area_get_def)
  then obtain u c where u: "loadUser demo_ext ''alice'' True demo_partial = Inr u"
    and uc: "map_of u ''custom'' = Some (JObj c)"
    and ck: "\<And>k. map_of c k = (case map_of [(''colorDefault'', JStr ''000000'')] k of
                     Some v \<Rightarrow> Some v | None \<Rightarrow> map_of (defaultCustom demo_ext) k)"
    by blast
  have d: "\<exists>u c. loadUser demo_ext ''alice'' True demo_partial = Inr u
        \<and> map_of u ''custom'' = Some (JObj c)
        \<and> map_of c ''colorDefault'' = Some (JStr ''000000'')
        \<and> map_of c ''labelIcon'' = Some (JBool False)"
    using u uc ck [of "''colorDefault''"] ck [of "''labelIcon''"]
    by (simp add: demo_ext_def new_Extension_def hardcoded_defaultCustom_def)
  from a b c d show ?thesis by blast
qed

subsection \<open>Account colours\<close>

lemma customizeProfile_color:
  assumes "applicationName ap = ''AWS Account''"
    and "accounts (custom user) (accountKey ap) = Some account"
  shows "profile_custom (profile (customizeProfile user ap)) =
     Some ((case profiles (custom user) (profile_id (profile ap)) of
              Some c \<Rightarrow> c
            | None \<Rightarrow> \<lparr>favorite = False, hide = False, label = None, iamRoles = [],
                        color = colorDefault (custom user)\<rparr>)
           \<lparr>color :=
              (let own = (case profiles (custom user) (profile_id (profile ap)) of
                            Some c \<Rightarrow> color c | None \<Rightarrow> colorDefault (custom user))
               in if accountsOverride (custom user) \<or> own = colorDefault (custom user)
                  then account_color account else own)\<rparr>)"
  using assms by (auto simp: customizeProfile_def Let_def split: option.splits)

text \<open>
  C1. For a profile of the AWS-account type whose account id has an entry in
  \<open>user.custom.accounts\<close>, the colour that \<open>customizeProfiles\<close> resolves is the account's
  colour when \<open>accountsOverride\<close> is set or the profile's own colour (its entry in
  \<open>user.custom.profiles\<close>, or the default block) equals \<open>colorDefault\<close>, and the profile's
  own colour otherwise.
\<close>

theorem customizeProfiles_account_color:
  assumes "i < length aps"
    and "applicationName (aps ! i) = ''AWS Account''"
    and "searchMetadata (aps ! i) = Some m"
    and "accounts (custom user) (AccountId m) = Some account"
    and "own = (case profiles (custom user) (profile_id (profile (aps ! i))) of
                  Some c \<Rightarrow> color c | None \<Rightarrow> colorDefault (custom user))"
  shows "length (customizeProfiles user aps) = length aps
    \<and> map_option color (profile_custom (profile (customizeProfiles user aps ! i))) =
        Some (if accountsOverride (custom user) \<or> own = colorDefault (custom user)
              then account_color account else own)"
proof -
  have "accounts (custom user) (accountKey (aps ! i)) = Some account"
    using assms(3,4) by (simp add: accountKey_def)
  from customizeProfile_color [OF assms(2) this] assms(1,5)
  show ?thesis
    by (simp add: customizeProfiles_def Let_def split: option.splits)
qed



lemma demo_account:
  "i < 3 \<Longrightarrow> applicationName (demo_profiles ! i) = ''AWS Account''
     \<and> searchMetadata (demo_profiles ! i) = Some \<lparr>AccountId = ''111111111111'', AccountName = ''prod''\<rparr>"
  by (cases i rule: nat.exhaust; simp add: demo_profiles_def demo_app_def nth_Cons split: nat.splits)

lemma demo_account_entry:
  "accounts (custom demo_user) (AccountId \<lparr>AccountId = ''111111111111'', AccountName = ''prod''\<rparr>)
     = Some \<lparr>account_label = None, account_color = ''ff0000''\<rparr>"
  by (simp add: demo_user_def demo_custom_def)

theorem customizeProfiles_account_color_witness:
  "map_option color (profile_custom (profile (customizeProfiles demo_user demo_profiles ! 0))) = Some ''ff0000''
   \<and> map_option color (profile_custom (profile (customizeProfiles demo_user demo_profiles ! 1))) = Some ''00ff00''
   \<and> map_option color (profile_custom (profile (customizeProfiles demo_user demo_profiles ! 2))) = Some ''ff0000''"
proof -
  have len: "0 < length demo_profiles" "1 < length demo_profiles" "2 < length demo_profiles"
    by (simp_all add: demo_profiles_def)
  have own0: "''222f3e'' = (case profiles (custom demo_user) (profile_id (profile (demo_profiles ! 0))) of
                  Some c \<Rightarrow> color c | None \<Rightarrow> colorDefault (custom demo_user))"
    by (simp add: demo_profiles_def demo_app_def demo_user_def demo_custom_def)
  have own1: "''00ff00'' = (case profiles (custom demo_user) (profile_id (profile (demo_profiles ! 1))) of
                  Some c \<Rightarrow> color c | None \<Rightarrow> colorDefault (custom demo_user))"
    by (simp add: demo_profiles_def demo_app_def demo_user_def demo_custom_def)
  have own2: "''222f3e'' = (case profiles (custom demo_user) (profile_id (profile (demo_profiles ! 2))) of
                  Some c \<Rightarrow> color c | None \<Rightarrow> colorDefault (custom demo_user))"
    by (simp add: demo_profiles_def demo_app_def demo_user_def demo_custom_def)
  have ov: "\<not> accountsOverride (custom demo_user)" "colorDefault (custom demo_user) = ''222f3e''"
    by (simp_all add: demo_user_def demo_custom_def)
  have r0: "map_option color (profile_custom (profile (customizeProfiles demo_user demo_profiles ! 0))) = Some ''ff0000''"
    using customizeProfiles_account_color
      [OF len(1) conjunct1 [OF demo_account] conjunct2 [OF demo_account] demo_account_entry own0] ov
    by simp
  have r1: "map_option color (profile_custom (profile (customizeProfiles demo_user demo_profiles ! 1))) = Some ''00ff00''"
    using customizeProfiles_account_color
      [OF len(2) conjunct1 [OF demo_account] conjunct2 [OF demo_account] demo_account_entry own1] ov
    by simp
  have r2: "map_option color (profile_custom (profile (customizeProfiles demo_user demo_profiles ! 2))) = Some ''ff0000''"
    using customizeProfiles_account_color
      [OF len(3) conjunct1 [OF demo_account] conjunct2 [OF demo_account] demo_account_entry own2] ov
    by simp
  from r0 r1 r2 show ?thesis by blast
qed

subsection \<open>The user that navSelectedProfile goes on with\<close>

lemma fold_assign_last:
  "fold (\<lambda>u user. if P u then Some u else user) us init =
     (if filter P us = [] then init else Some (last (filter P us)))"
  by (induction us arbitrary: init) auto

lemma find_as_filter:
  "find P xs = (case filter P xs of [] \<Rightarrow> None | x # _ \<Rightarrow> Some x)"
  by (induction xs) auto

lemma findUserByProfileId_last:
  "\<exists>u\<in>set us. owns profileId u \<Longrightarrow>
   findUserByProfileId profileId us = Some (last (filter (owns profileId) us))"
proof -
  assume "\<exists>u\<in>set us. owns profileId u"
  then have "filter (owns profileId) us \<noteq> []"
    by (simp add: filter_empty_conv)
  then show ?thesis
    unfolding findUserByProfileId_def owns_def [abs_def, symmetric]
    by (simp add: fold_assign_last owns_def [abs_def])
qed

text \<open>
  C2, as the code has it. With \<open>showAllProfiles\<close> on and a profile that the passed user does
  not own, \<open>navSelectedProfile\<close> goes on with the last user of the list whose
  \<open>appProfileIds\<close> contains the profile id: every owner met in the list replaces the one
  before. With a single owner this is that owner.
\<close>

theorem navSelectedProfile_last_owner:
  assumes "showAllProfiles stg"
    and "\<not> owns (profile_id (profile prof)) user"
    and "\<exists>u\<in>set us. owns (profile_id (profile prof)) u"
  shows "navSelectedProfile_user prof user us stg =
           Some (last (filter (owns (profile_id (profile prof))) us))
    \<and> owns (profile_id (profile prof)) (last (filter (owns (profile_id (profile prof))) us))
    \<and> (filter (owns (profile_id (profile prof))) us = [u] \<longrightarrow>
          navSelectedProfile_user prof user us stg = spec_first_owner (profile_id (profile prof)) us)
    \<and> (\<forall>r. navSelectedProfile pf prof user us stg tabs containers = Inr r \<longrightarrow>
          fst r = last (filter (owns (profile_id (profile prof))) us))"
proof -
  let ?pid = "profile_id (profile prof)"
  let ?owners = "filter (owns ?pid) us"
  have res: "navSelectedProfile_user prof user us stg = Some (last ?owners)"
    using assms findUserByProfileId_last [of us ?pid]
    by (simp add: navSelectedProfile_user_def owns_def)
  have ne: "?owners \<noteq> []"
    using assms(3) by (simp add: filter_empty_conv)
  then have "last ?owners \<in> set ?owners" by (rule last_in_set)
  then have own: "owns ?pid (last ?owners)" by simp
  have single: "?owners = [u] \<longrightarrow> navSelectedProfile_user prof user us stg = spec_first_owner ?pid us"
  proof
    assume one: "?owners = [u]"
    then have "find (owns ?pid) us = Some u"
      by (simp add: find_as_filter)
    with one res show "navSelectedProfile_user prof user us stg = spec_first_owner ?pid us"
      by (simp add: spec_first_owner_def)
  qed
  have nav: "\<forall>r. navSelectedProfile pf prof user us stg tabs containers = Inr r \<longrightarrow> fst r = last ?owners"
    using res by (auto simp: navSelectedProfile_def Let_def split: sum.splits list.splits if_splits)
  from res own single nav show ?thesis by blast
qed


theorem navSelectedProfile_last_owner_witness:
  "navSelectedProfile_user (demo_app ''p-shared'' ''Admin'') demo_user
      [demo_owner ''bob'', demo_owner ''carol''] demo_nav_settings = Some (demo_owner ''carol'')
   \<and> navSelectedProfile_user (demo_app ''p-shared'' ''Admin'') demo_user
      [demo_user, demo_owner ''bob''] demo_nav_settings
        = spec_first_owner ''p-shared'' [demo_user, demo_owner ''bob'']
   \<and> (\<exists>r. navSelectedProfile Chrome (demo_app ''p-shared'' ''Admin'') demo_user
          [demo_owner ''bob'', demo_owner ''carol''] demo_nav_settings [demo_tab ''https://example.com/''] [] = Inr r
        \<and> fst r = demo_owner ''carol'')"
proof -
  have h1: "showAllProfiles demo_nav_settings"
    by (simp add: demo_nav_settings_def)
  have h2: "\<not> owns (profile_id (profile (demo_app ''p-shared'' ''Admin''))) demo_user"
    by (simp add: owns_def demo_app_def demo_user_def)
  have h3: "\<exists>u\<in>set [demo_owner ''bob'', demo_owner ''carol''].
              owns (profile_id (profile (demo_app ''p-shared'' ''Admin''))) u"
    by (simp add: owns_def demo_app_def demo_owner_def)
  have h4: "\<exists>u\<in>set [demo_user, demo_owner ''bob''].
              owns (profile_id (profile (demo_app ''p-shared'' ''Admin''))) u"
    by (simp add: owns_def demo_app_def demo_owner_def)
  have a: "navSelectedProfile_user (demo_app ''p-shared'' ''Admin'') demo_user
      [demo_owner ''bob'', demo_owner ''carol''] demo_nav_settings = Some (demo_owner ''carol'')"
    using navSelectedProfile_last_owner [OF h1 h2 h3]
    by (simp add: owns_def demo_app_def demo_owner_def)
  have f: "filter (owns (profile_id (profile (demo_app ''p-shared'' ''Admin'')))) [demo_user, demo_owner ''bob'']
             = [demo_owner ''bob'']"
    by (simp add: owns_def demo_app_def demo_owner_def demo_user_def)
  have b: "navSelectedProfile_user (demo_app ''p-shared'' ''Admin'') demo_user
      [demo_user, demo_owner ''bob''] demo_nav_settings
        = spec_first_owner ''p-shared'' [demo_user, demo_owner ''bob'']"
  proof -
    have pid: "profile_id (profile (demo_app ''p-shared'' ''Admin'')) = ''p-shared''"
      by (simp add: demo_app_def)
    from navSelectedProfile_last_owner [OF h1 h2 h4, of "demo_owner ''bob''"] f
    have "navSelectedProfile_user (demo_app ''p-shared'' ''Admin'') demo_user
        [demo_user, demo_owner ''bob''] demo_nav_settings
          = spec_first_owner (profile_id (profile (demo_app ''p-shared'' ''Admin''))) [demo_user, demo_owner ''bob'']"
      by blast
    then show ?thesis by (simp only: pid)
  qed
  have "\<not> url_matches_console ''https://example.com/''"
    by (simp add: url_matches_console_def rx_match_def consoleUrlRegex_def region_rx_def)
  then have "\<exists>url. createProfileUrl (demo_owner ''carol'') (demo_app ''p-shared'' ''Admin'')
      [demo_tab ''https://example.com/''] = Inr url"
    by (simp add: createProfileUrl_def demo_app_def demo_tab_def Let_def)
  then obtain url where "createProfileUrl (demo_owner ''carol'') (demo_app ''p-shared'' ''Admin'')
      [demo_tab ''https://example.com/''] = Inr url"
    by (elim exE)
  then have "\<exists>r. navSelectedProfile Chrome (demo_app ''p-shared'' ''Admin'') demo_user
      [demo_owner ''bob'', demo_owner ''carol''] demo_nav_settings [demo_tab ''https://example.com/''] [] = Inr r"
    by (simp add: navSelectedProfile_def a Let_def)
  then obtain r where r: "navSelectedProfile Chrome (demo_app ''p-shared'' ''Admin'') demo_user
      [demo_owner ''bob'', demo_owner ''carol''] demo_nav_settings [demo_tab ''https://example.com/''] [] = Inr r"
    by (elim exE)
  have l: "last (filter (owns (profile_id (profile (demo_app ''p-shared'' ''Admin''))))
      [demo_owner ''bob'', demo_owner ''carol'']) = demo_owner ''carol''"
    by (simp add: owns_def demo_app_def demo_owner_def)
  from navSelectedProfile_last_owner [OF h1 h2 h3, of _ Chrome "[demo_tab ''https://example.com/'']" "[]"] r
  have "fst r = last (filter (owns (profile_id (profile (demo_app ''p-shared'' ''Admin''))))
      [demo_owner ''bob'', demo_owner ''carol''])"
    by blast
  with r l have c: "\<exists>r. navSelectedProfile Chrome (demo_app ''p-shared'' ''Admin'') demo_user
          [demo_owner ''bob'', demo_owner ''carol''] demo_nav_settings [demo_tab ''https://example.com/''] [] = Inr r
        \<and> fst r = demo_owner ''carol''"
    by (intro exI [of _ r] conjI) simp_all
  from a b c show ?thesis by (intro conjI)
qed

text \<open>
  The claim as stated fails: both \<open>bob\<close> and \<open>carol\<close> own \<open>p-shared\<close>, \<open>bob\<close> comes first,
  and the function goes on with \<open>carol\<close>.
\<close>

theorem navSelectedProfile_first_owner_counterexample:
  "showAllProfiles demo_nav_settings
   \<and> \<not> owns ''p-shared'' demo_user
   \<and> spec_first_owner ''p-shared'' [demo_owner ''bob'', demo_owner ''carol''] = Some (demo_owner ''bob'')
   \<and> navSelectedProfile_user (demo_app ''p-shared'' ''Admin'') demo_user
        [demo_owner ''bob'', demo_owner ''carol''] demo_nav_settings = Some (demo_owner ''carol'')
   \<and> demo_owner ''carol'' \<noteq> demo_owner ''bob''"
  by (simp add: demo_nav_settings_def owns_def demo_user_def spec_first_owner_def demo_owner_def
      navSelectedProfile_user_def demo_app_def findUserByProfileId_def)

subsection \<open>Percent-encoding\<close>

lemma hex_upper_alnum: "d < 16 \<Longrightarrow> is_alnum (hex_upper d)"
proof -
  assume d: "d < 16"
  have "list_all is_alnum ''0123456789ABCDEF''"
    by (simp add: is_alnum_def)
  then have "\<forall>i < length ''0123456789ABCDEF''. is_alnum (''0123456789ABCDEF'' ! i)"
    by (simp only: list_all_length)
  with d show ?thesis
    by (simp add: hex_upper_def)
qed

lemma of_char_div_16: "(of_char c :: nat) div 16 < 16"
  using nat_of_char_less_256 [of c] by arith

lemma alnum_not_paren_mark: "is_alnum c \<Longrightarrow> \<not> is_paren_mark c"
  by (auto simp: is_alnum_def is_paren_mark_def)

lemma pct_encode_keeps:
  "concat (map (\<lambda>c. if is_paren_mark c then CHR ''%'' # toString16 (of_char c) else [c]) (pct_encode c))
     = pct_encode c"
  using alnum_not_paren_mark [OF hex_upper_alnum [OF of_char_div_16 [of c]]]
        alnum_not_paren_mark [OF hex_upper_alnum [of "(of_char c :: nat) mod 16"]]
  by (simp add: pct_encode_def is_paren_mark_def)

lemma encodeUriPlusParens_Cons:
  "encodeUriPlusParens (c # s) =
     (if rfc3986_unreserved c then [c]
      else if is_paren_mark c then CHR ''%'' # toString16 (of_char c)
      else pct_encode c) @ encodeUriPlusParens s"
proof -
  have step: "encodeUriPlusParens (c # s) =
      concat (map (\<lambda>c. if is_paren_mark c then CHR ''%'' # toString16 (of_char c) else [c])
                (if uri_unescaped c then [c] else pct_encode c)) @ encodeUriPlusParens s"
    by (simp add: encodeUriPlusParens_def encodeURIComponent_def)
  consider (un) "rfc3986_unreserved c" | (mark) "\<not> rfc3986_unreserved c" "is_paren_mark c"
    | (other) "\<not> rfc3986_unreserved c" "\<not> is_paren_mark c"
    by blast
  then show ?thesis
  proof cases
    case un
    then have "uri_unescaped c" "\<not> is_paren_mark c"
      by (auto simp: rfc3986_unreserved_def uri_unescaped_def is_paren_mark_def dest: alnum_not_paren_mark)
    with un show ?thesis by (simp add: step)
  next
    case mark
    then have "uri_unescaped c" by (simp add: uri_unescaped_def)
    with mark show ?thesis by (simp add: step)
  next
    case other
    then have "\<not> uri_unescaped c" by (simp add: uri_unescaped_def rfc3986_unreserved_def)
    with other show ?thesis by (simp add: step pct_encode_keeps)
  qed
qed

lemma encodeUriPlusParens_Nil: "encodeUriPlusParens [] = []"
  by (simp add: encodeUriPlusParens_def encodeURIComponent_def)

text \<open>What \<open>encodeUriPlusParens\<close> writes for one character.\<close>

lemma encodeUriPlusParens_chars:
  "encodeUriPlusParens s =
     concat (map (\<lambda>c. if rfc3986_unreserved c then [c]
                          else if is_paren_mark c then CHR ''%'' # toString16 (of_char c)
                          else pct_encode c) s)"
  by (induction s) (simp_all only: encodeUriPlusParens_Nil encodeUriPlusParens_Cons list.map concat.simps)

lemma toString16_values:
  "toString16 33 = ''21''" "toString16 39 = ''27''" "toString16 40 = ''28''"
  "toString16 41 = ''29''" "toString16 42 = ''2a''"
  by (simp_all add: toString16.simps [of 33] toString16.simps [of 39] toString16.simps [of 40]
      toString16.simps [of 41] toString16.simps [of 42] toString16.simps [of 2] hex_lower_def)

lemma toString16_marks:
  "is_paren_mark c \<Longrightarrow> toString16 (of_char c) \<in> {''21'', ''27'', ''28'', ''29'', ''2a''}"
  by (auto simp: is_paren_mark_def toString16_values)

lemma toString16_marks_alphabet:
  "is_paren_mark x \<Longrightarrow> y \<in> set (toString16 (of_char x)) \<Longrightarrow> is_alnum y"
proof -
  assume m: "is_paren_mark x" and y: "y \<in> set (toString16 (of_char x))"
  from m have "toString16 (of_char x) \<in> {''21'', ''27'', ''28'', ''29'', ''2a''}"
    by (rule toString16_marks)
  moreover have "list_all is_alnum ''21''" "list_all is_alnum ''27''" "list_all is_alnum ''28''"
    "list_all is_alnum ''29''" "list_all is_alnum ''2a''"
    by (simp_all add: is_alnum_def)
  ultimately have "list_all is_alnum (toString16 (of_char x))"
    by fastforce
  with y show ?thesis by (simp add: list_all_iff)
qed

lemma escape_alphabet:
  assumes "c \<in> set (if rfc3986_unreserved x then [x]
              else if is_paren_mark x then CHR ''%'' # toString16 (of_char x)
              else pct_encode x)"
  shows "rfc3986_unreserved c \<or> c = CHR ''%''"
proof -
  consider (un) "rfc3986_unreserved x" | (mark) "\<not> rfc3986_unreserved x" "is_paren_mark x"
    | (other) "\<not> rfc3986_unreserved x" "\<not> is_paren_mark x"
    by blast
  then show ?thesis
  proof cases
    case un
    with assms show ?thesis by simp
  next
    case mark
    with assms have "c = CHR ''%'' \<or> c \<in> set (toString16 (of_char x))" by simp
    with mark(2) toString16_marks_alphabet show ?thesis
      unfolding rfc3986_unreserved_def by blast
  next
    case other
    have a: "is_alnum (hex_upper ((of_char x :: nat) div 16))"
      by (rule hex_upper_alnum [OF of_char_div_16])
    have b: "is_alnum (hex_upper ((of_char x :: nat) mod 16))"
      by (rule hex_upper_alnum) simp
    from other assms have "c = CHR ''%'' \<or> c = hex_upper ((of_char x :: nat) div 16)
        \<or> c = hex_upper ((of_char x :: nat) mod 16)"
      by (simp add: pct_encode_def)
    with a b show ?thesis
      unfolding rfc3986_unreserved_def by blast
  qed
qed

lemma encodeUriPlusParens_alphabet:
  "c \<in> set (encodeUriPlusParens s) \<Longrightarrow> rfc3986_unreserved c \<or> c = CHR ''%''"
proof -
  assume "c \<in> set (encodeUriPlusParens s)"
  then have "\<exists>x\<in>set s. c \<in> set (if rfc3986_unreserved x then [x]
                          else if is_paren_mark x then CHR ''%'' # toString16 (of_char x)
                          else pct_encode x)"
    unfolding encodeUriPlusParens_chars set_concat set_map by blast
  then show ?thesis
    using escape_alphabet by blast
qed

subsection \<open>The console pattern and createProfileUrl\<close>

lemma take_takeWhile_all:
  assumes "k \<le> length (takeWhile P s)"
  shows "list_all P (take k s)"
proof -
  have "take k s = take k (takeWhile P s @ dropWhile P s)" by simp
  also have "\<dots> = take k (takeWhile P s)" using assms by (simp only: take_append) simp
  finally have "set (take k s) \<subseteq> set (takeWhile P s)" by (simp add: set_take_subset)
  then show ?thesis by (auto simp: list_all_iff dest: set_takeWhileD)
qed

lemma rx_rest_Many_set:
  "set (rx_rest (Many cls lo hi) s) =
     (\<lambda>k. drop k s) ` {k. lo \<le> k \<and> k \<le> length (takeWhile cls s)
                           \<and> (case hi of None \<Rightarrow> True | Some h \<Rightarrow> k \<le> h)}"
proof (cases hi)
  case None
  have "{lo..<Suc (length (takeWhile cls s))} = {k. lo \<le> k \<and> k \<le> length (takeWhile cls s)}"
    by auto
  moreover have "set (rx_rest (Many cls lo None) s) = (\<lambda>k. drop k s) ` {lo..<Suc (length (takeWhile cls s))}"
    by (simp add: Let_def del: upt_Suc)
  ultimately show ?thesis using None by simp
next
  case (Some h)
  have "{lo..<Suc (min h (length (takeWhile cls s)))} = {k. lo \<le> k \<and> k \<le> length (takeWhile cls s) \<and> k \<le> h}"
    by auto
  moreover have "set (rx_rest (Many cls lo (Some h)) s)
      = (\<lambda>k. drop k s) ` {lo..<Suc (min h (length (takeWhile cls s)))}"
    by (simp add: Let_def del: upt_Suc)
  ultimately show ?thesis using Some by simp
qed

lemma rx_rest_Many:
  "s' \<in> set (rx_rest (Many cls lo hi) s) \<longleftrightarrow> (\<exists>w \<in> lang (Many cls lo hi). s = w @ s')"
proof
  assume "s' \<in> set (rx_rest (Many cls lo hi) s)"
  then obtain k where k: "lo \<le> k" "k \<le> length (takeWhile cls s)"
      "case hi of None \<Rightarrow> True | Some h \<Rightarrow> k \<le> h" and s': "s' = drop k s"
    unfolding rx_rest_Many_set by blast
  have "list_all cls (take k s)"
    using k(2) by (rule take_takeWhile_all)
  moreover have "length (take k s) = k"
    using k(2) length_takeWhile_le [of cls s] by simp
  ultimately have "take k s \<in> lang (Many cls lo hi)"
    using k(1,3) by (simp split: option.splits)
  moreover have "s = take k s @ s'" by (simp add: s')
  ultimately show "\<exists>w \<in> lang (Many cls lo hi). s = w @ s'" by blast
next
  assume "\<exists>w \<in> lang (Many cls lo hi). s = w @ s'"
  then obtain w where w: "list_all cls w" "lo \<le> length w"
      "case hi of None \<Rightarrow> True | Some h \<Rightarrow> length w \<le> h" and s: "s = w @ s'"
    by auto
  have "length w \<le> length (takeWhile cls s)"
    using w(1) unfolding s by (simp add: list_all_iff takeWhile_append2)
  moreover have "s' = drop (length w) s" by (simp add: s)
  ultimately show "s' \<in> set (rx_rest (Many cls lo hi) s)"
    unfolding rx_rest_Many_set using w(2,3) by blast
qed

lemma rx_rest_lang:
  "s' \<in> set (rx_rest r s) \<longleftrightarrow> (\<exists>w \<in> lang r. s = w @ s')"
proof (induction r arbitrary: s s')
  case (Lit l)
  show ?case by (auto simp: prefix_def)
next
  case (Many cls lo hi)
  show ?case by (rule rx_rest_Many)
next
  case (Seq a b)
  show ?case
  proof
    assume "s' \<in> set (rx_rest (Seq a b) s)"
    then obtain m where m: "m \<in> set (rx_rest a s)" and s': "s' \<in> set (rx_rest b m)"
      by auto
    from m obtain u where u: "u \<in> lang a" "s = u @ m" using Seq.IH(1) by blast
    from s' obtain v where v: "v \<in> lang b" "m = v @ s'" using Seq.IH(2) by blast
    from u v have "u @ v \<in> lang (Seq a b)" "s = (u @ v) @ s'" by auto
    then show "\<exists>w \<in> lang (Seq a b). s = w @ s'" by blast
  next
    assume "\<exists>w \<in> lang (Seq a b). s = w @ s'"
    then obtain u v where uv: "u \<in> lang a" "v \<in> lang b" "s = (u @ v) @ s'" by auto
    then have "v @ s' \<in> set (rx_rest a s)" using Seq.IH(1) by auto
    moreover have "s' \<in> set (rx_rest b (v @ s'))" using uv(2) Seq.IH(2) by blast
    ultimately show "s' \<in> set (rx_rest (Seq a b) s)" by auto
  qed
next
  case (Alt a b)
  show ?case by (auto simp: Alt.IH)
next
  case (Opt a)
  show ?case by (auto simp: Opt.IH)
qed

lemma rx_match_lang: "rx_match r s \<longleftrightarrow> s \<in> lang r"
  by (simp add: rx_match_def rx_rest_lang)


lemma contains_skip:
  "x \<notin> set a \<Longrightarrow> contains (x # xs) (a @ b) = contains (x # xs) b"
  by (induction a) auto

lemma lang_counted:
  "lang (Many cls 2 (Some 2)) = {w. list_all cls w \<and> length w = 2}"
  "lang (Many cls 1 None) = {w. list_all cls w \<and> w \<noteq> []}"
  "lang (Many cls 1 (Some 2)) = {w. list_all cls w \<and> (length w = 1 \<or> length w = 2)}"
  "lang (Many cls 0 None) = {w. list_all cls w}"
proof -
  have a: "\<And>n::nat. (2 \<le> n \<and> n \<le> 2) = (n = 2)" by arith
  have b: "\<And>n::nat. (1 \<le> n \<and> n \<le> 2) = (n = 1 \<or> n = 2)" by arith
  have c: "\<And>w::string. (1 \<le> length w) = (w \<noteq> [])" by (simp add: Suc_le_eq)
  show "lang (Many cls 2 (Some 2)) = {w. list_all cls w \<and> length w = 2}"
    using a by auto
  show "lang (Many cls 1 None) = {w. list_all cls w \<and> w \<noteq> []}"
    using c by auto
  show "lang (Many cls 1 (Some 2)) = {w. list_all cls w \<and> (length w = 1 \<or> length w = 2)}"
    using b by (simp only: lang.simps option.case)
  show "lang (Many cls 0 None) = {w. list_all cls w}"
    by auto
qed

lemma lang_region: "w \<in> lang region_rx \<longleftrightarrow> spec_region w"
  unfolding region_rx_def spec_region_def lang.simps(3,1) lang_counted
  by (simp only: mem_Collect_eq singleton_iff) blast

lemma lang_consoleUrlRegex:
  "url \<in> lang consoleUrlRegex \<longleftrightarrow>
     (\<exists>host path. url = ''https://'' @ host @ ''.com/'' @ path
        \<and> spec_console_host host \<and> list_all rx_dot path)"
proof -
  have opt: "lang (Opt (Many rx_dot 0 None)) = {w. list_all rx_dot w}"
    by (auto simp: lang_counted)
  have host: "\<And>h. h \<in> lang (Alt (Seq (Alt region_rx (Alt (Lit ''support'') (Alt (Lit ''s3'') (Lit ''health''))))
                      (Lit ''.console.aws.amazon''))
                 (Lit ''console.amazonaws-us-gov'')) \<longleftrightarrow> spec_console_host h"
    unfolding spec_console_host_def lang.simps(3,4,1) Un_iff mem_Collect_eq singleton_iff lang_region
    by blast
  show ?thesis
    unfolding consoleUrlRegex_def lang.simps(3) [of "Lit ''https://''"]
      lang.simps(3) [of "Lit ''.com/''"] lang.simps(3) [of "Alt _ _"] opt lang.simps(1) mem_Collect_eq singleton_iff host
    by blast
qed


lemma class_not_E2:
  "rx_word c \<Longrightarrow> c \<noteq> CHR 0xE2" "rx_digit c \<Longrightarrow> c \<noteq> CHR 0xE2"
  by (auto simp: rx_word_def is_alnum_def rx_digit_def)

lemma region_no_E2: "spec_region sub \<Longrightarrow> CHR 0xE2 \<notin> set sub"
proof -
  assume "spec_region sub"
  then obtain a b d where sub: "sub = a @ ''-'' @ b @ ''-'' @ d"
    and cls: "list_all rx_word a" "list_all rx_word b" "list_all rx_digit d"
    unfolding spec_region_def by blast
  from cls have "CHR 0xE2 \<notin> set a" "CHR 0xE2 \<notin> set b" "CHR 0xE2 \<notin> set d"
    using class_not_E2 unfolding list_all_iff by blast+
  then show ?thesis by (simp add: sub)
qed

lemma host_no_E2: "spec_console_host host \<Longrightarrow> CHR 0xE2 \<notin> set host"
  unfolding spec_console_host_def using region_no_E2 by auto

lemma url_matches_console_spec: "url_matches_console url \<longleftrightarrow> spec_console_url url"
proof -
  have skip: "contains (CHR 0xE2 # xs) (''https://'' @ host @ ''.com/'' @ path) = contains (CHR 0xE2 # xs) path"
    if "spec_console_host host" for xs host path
  proof -
    have "CHR 0xE2 \<notin> set (''https://'' @ host @ ''.com/'')"
      using host_no_E2 [OF that] by simp
    from contains_skip [OF this, of xs path] show ?thesis by simp
  qed
  have dot: "list_all rx_dot path \<longleftrightarrow> CHR 0x0A \<notin> set path \<and> CHR 0x0D \<notin> set path" for path
    by (auto simp: list_all_iff rx_dot_def)
  show ?thesis
    unfolding url_matches_console_def rx_match_lang lang_consoleUrlRegex spec_console_url_def
      spec_single_line_def dot
    using skip by blast
qed

text \<open>
  C3. For an application profile whose \<open>profile.name\<close> is \<open>Default\<close>, \<open>createProfileUrl\<close>
  returns the SSO-directory deep link, whatever the browser tabs are. The name and the id in
  the link are those of the application profile that is passed in (\<open>appProfile.name\<close>,
  \<open>appProfile.id\<close>), the \<open>profile\<close> of the specification's \<open>buildConsoleUrl\<close>. The encoding
  keeps the unreserved characters of RFC 3986 and writes every other byte, the characters
  \<open>! ' ( ) *\<close> among them, as \<open>%\<close> and two hexadecimal digits, so that the encoded name
  holds unreserved characters and \<open>%\<close> only.
\<close>

theorem createProfileUrl_default:
  assumes "profile_name (profile ap) = ''Default''"
  shows "createProfileUrl user ap tabs =
           Inr (''https://'' @ managedActiveDirectoryId user @ ''.awsapps.com/start/#/saml/default/''
                @ encodeUriPlusParens (app_name ap) @ ''/'' @ app_id ap)
    \<and> encodeUriPlusParens (app_name ap) =
        concat (map (\<lambda>c. if rfc3986_unreserved c then [c]
                           else if is_paren_mark c then CHR ''%'' # toString16 (of_char c)
                           else pct_encode c) (app_name ap))
    \<and> list_all (\<lambda>c. rfc3986_unreserved c \<or> c = CHR ''%'') (encodeUriPlusParens (app_name ap))"
proof (intro conjI)
  show "createProfileUrl user ap tabs =
           Inr (''https://'' @ managedActiveDirectoryId user @ ''.awsapps.com/start/#/saml/default/''
                @ encodeUriPlusParens (app_name ap) @ ''/'' @ app_id ap)"
    using assms by (simp add: createProfileUrl_def Let_def)
  show "encodeUriPlusParens (app_name ap) =
        concat (map (\<lambda>c. if rfc3986_unreserved c then [c]
                           else if is_paren_mark c then CHR ''%'' # toString16 (of_char c)
                           else pct_encode c) (app_name ap))"
    by (rule encodeUriPlusParens_chars)
  show "list_all (\<lambda>c. rfc3986_unreserved c \<or> c = CHR ''%'') (encodeUriPlusParens (app_name ap))"
    unfolding list_all_iff using encodeUriPlusParens_alphabet by blast
qed

lemma encodeUriPlusParens_demo: "encodeUriPlusParens ''Prod (main)*'' = ''Prod%20%28main%29%2a''"
  by (simp add: encodeUriPlusParens_def encodeURIComponent_def uri_unescaped_def is_alnum_def
      is_paren_mark_def pct_encode_def hex_upper_def toString16_values)

theorem createProfileUrl_default_witness:
  "createProfileUrl demo_user (demo_app ''p-default'' ''Default'') [] =
     Inr ''https://d-1234567890.awsapps.com/start/#/saml/default/Prod%20%28main%29%2a/ins-1''
   \<and> list_all (\<lambda>c. rfc3986_unreserved c \<or> c = CHR ''%'') ''Prod%20%28main%29%2a''"
proof -
  have h: "profile_name (profile (demo_app ''p-default'' ''Default'')) = ''Default''"
    by (simp add: demo_app_def)
  have n: "app_name (demo_app ''p-default'' ''Default'') = ''Prod (main)*''"
    "app_id (demo_app ''p-default'' ''Default'') = ''ins-1''"
    "managedActiveDirectoryId demo_user = ''d-1234567890''"
    by (simp_all add: demo_app_def demo_user_def)
  from conjunct1 [OF createProfileUrl_default [OF h, of demo_user "[]"]]
  have a: "createProfileUrl demo_user (demo_app ''p-default'' ''Default'') [] =
     Inr ''https://d-1234567890.awsapps.com/start/#/saml/default/Prod%20%28main%29%2a/ins-1''"
    by (simp only: n encodeUriPlusParens_demo) simp
  from conjunct2 [OF conjunct2 [OF createProfileUrl_default [OF h, of demo_user "[]"]]]
  have b: "list_all (\<lambda>c. rfc3986_unreserved c \<or> c = CHR ''%'') ''Prod%20%28main%29%2a''"
    by (simp only: n encodeUriPlusParens_demo)
  from a b show ?thesis by (intro conjI)
qed

text \<open>
  C4. For an application profile whose \<open>profile.name\<close> is not \<open>Default\<close>, and a current
  tab, \<open>createProfileUrl\<close> returns the console federation link with the account id of
  \<open>searchMetadata\<close> and \<open>profile.name\<close> as the role name, and appends \<open>&destination=\<close> with the encoded URL of the
  current tab exactly when the tab has a URL that matches the console pattern. The pattern
  matches \<open>https://\<close>, a console host, \<open>.com/\<close> and a path on one line; the encoded URL
  holds the characters \<open>encodeURIComponent\<close> keeps and \<open>%\<close> only.
\<close>

theorem createProfileUrl_console:
  assumes "profile_name (profile ap) \<noteq> ''Default''"
  shows "createProfileUrl user ap (currentTab # more_tabs) =
           Inr ((''https://'' @ managedActiveDirectoryId user @ ''.awsapps.com/start/#/console?account_id=''
                 @ accountKey ap @ ''&role_name='' @ profile_name (profile ap))
                @ (case tab_url currentTab of
                     None \<Rightarrow> []
                   | Some url \<Rightarrow> if url_matches_console url
                                 then ''&destination='' @ encodeURIComponent url else []))
    \<and> (searchMetadata ap = Some m \<longrightarrow> accountKey ap = AccountId m)
    \<and> (url_matches_console url \<longleftrightarrow> spec_console_url url)
    \<and> list_all (\<lambda>c. uri_unescaped c \<or> c = CHR ''%'') (encodeURIComponent url)"
proof (intro conjI impI)
  show "createProfileUrl user ap (currentTab # more_tabs) =
           Inr ((''https://'' @ managedActiveDirectoryId user @ ''.awsapps.com/start/#/console?account_id=''
                 @ accountKey ap @ ''&role_name='' @ profile_name (profile ap))
                @ (case tab_url currentTab of
                     None \<Rightarrow> []
                   | Some url \<Rightarrow> if url_matches_console url
                                 then ''&destination='' @ encodeURIComponent url else []))"
    using assms by (simp add: createProfileUrl_def Let_def split: option.splits)
  show "accountKey ap = AccountId m" if "searchMetadata ap = Some m"
    using that by (simp add: accountKey_def)
  show "url_matches_console url \<longleftrightarrow> spec_console_url url"
    by (rule url_matches_console_spec)
  have "uri_unescaped c \<or> c = CHR ''%''" if "c \<in> set (encodeURIComponent url)" for c
  proof -
    from that obtain x where "x \<in> set url" and c: "c \<in> set (if uri_unescaped x then [x] else pct_encode x)"
      unfolding encodeURIComponent_def set_concat set_map by blast
    have "uri_unescaped (hex_upper ((of_char x :: nat) div 16))"
      using hex_upper_alnum [OF of_char_div_16] by (simp add: uri_unescaped_def)
    moreover have "uri_unescaped (hex_upper ((of_char x :: nat) mod 16))"
      using hex_upper_alnum [of "(of_char x :: nat) mod 16"] by (simp add: uri_unescaped_def)
    ultimately show ?thesis
      using c by (cases "uri_unescaped x") (auto simp: pct_encode_def)
  qed
  then show "list_all (\<lambda>c. uri_unescaped c \<or> c = CHR ''%'') (encodeURIComponent url)"
    unfolding list_all_iff by blast
qed


lemma demo_console_tab:
  "url_matches_console ''https://us-east-1.console.aws.amazon.com/ec2/home?region=us-east-1''"
  "encodeURIComponent ''https://us-east-1.console.aws.amazon.com/ec2/home?region=us-east-1''
     = ''https%3A%2F%2Fus-east-1.console.aws.amazon.com%2Fec2%2Fhome%3Fregion%3Dus-east-1''"
  "\<not> url_matches_console ''https://example.com/''"
  by (simp_all add: url_matches_console_def rx_match_def consoleUrlRegex_def region_rx_def rx_word_def
      rx_digit_def rx_dot_def is_alnum_def encodeURIComponent_def uri_unescaped_def is_paren_mark_def
      pct_encode_def hex_upper_def)

theorem createProfileUrl_console_witness:
  "createProfileUrl demo_user (demo_app ''p-default'' ''Admin'')
      [demo_tab ''https://us-east-1.console.aws.amazon.com/ec2/home?region=us-east-1''] =
     Inr ''https://d-1234567890.awsapps.com/start/#/console?account_id=111111111111&role_name=Admin&destination=https%3A%2F%2Fus-east-1.console.aws.amazon.com%2Fec2%2Fhome%3Fregion%3Dus-east-1''
   \<and> createProfileUrl demo_user (demo_app ''p-default'' ''Admin'') [demo_tab ''https://example.com/''] =
     Inr ''https://d-1234567890.awsapps.com/start/#/console?account_id=111111111111&role_name=Admin''
   \<and> accountKey (demo_app ''p-default'' ''Admin'') = ''111111111111''
   \<and> spec_console_url ''https://us-east-1.console.aws.amazon.com/ec2/home?region=us-east-1''
   \<and> list_all (\<lambda>c. uri_unescaped c \<or> c = CHR ''%'')
         ''https%3A%2F%2Fus-east-1.console.aws.amazon.com%2Fec2%2Fhome%3Fregion%3Dus-east-1''"
proof -
  have h: "profile_name (profile (demo_app ''p-default'' ''Admin'')) \<noteq> ''Default''"
    by (simp add: demo_app_def)
  have n: "profile_name (profile (demo_app ''p-default'' ''Admin'')) = ''Admin''"
    "accountKey (demo_app ''p-default'' ''Admin'') = ''111111111111''"
    "managedActiveDirectoryId demo_user = ''d-1234567890''"
    "\<And>u. tab_url (demo_tab u) = Some u"
    by (simp_all add: demo_app_def demo_user_def accountKey_def demo_tab_def)
  have a: "createProfileUrl demo_user (demo_app ''p-default'' ''Admin'')
      [demo_tab ''https://us-east-1.console.aws.amazon.com/ec2/home?region=us-east-1''] =
     Inr ''https://d-1234567890.awsapps.com/start/#/console?account_id=111111111111&role_name=Admin&destination=https%3A%2F%2Fus-east-1.console.aws.amazon.com%2Fec2%2Fhome%3Fregion%3Dus-east-1''"
    using conjunct1 [OF createProfileUrl_console [OF h, of demo_user
        "demo_tab ''https://us-east-1.console.aws.amazon.com/ec2/home?region=us-east-1''" "[]"]]
    by (simp only: n demo_console_tab option.case if_True) simp
  have b: "createProfileUrl demo_user (demo_app ''p-default'' ''Admin'') [demo_tab ''https://example.com/''] =
     Inr ''https://d-1234567890.awsapps.com/start/#/console?account_id=111111111111&role_name=Admin''"
    using conjunct1 [OF createProfileUrl_console [OF h, of demo_user "demo_tab ''https://example.com/''" "[]"]]
    by (simp only: n demo_console_tab option.case if_False) simp
  note th = createProfileUrl_console [OF h, of demo_user "demo_tab ''https://example.com/''" "[]"
      "\<lparr>AccountId = ''111111111111'', AccountName = ''prod''\<rparr>"
      "''https://us-east-1.console.aws.amazon.com/ec2/home?region=us-east-1''"]
  have sm: "searchMetadata (demo_app ''p-default'' ''Admin'')
      = Some \<lparr>AccountId = ''111111111111'', AccountName = ''prod''\<rparr>"
    by (simp add: demo_app_def)
  from mp [OF conjunct1 [OF conjunct2 [OF th]] sm]
  have c: "accountKey (demo_app ''p-default'' ''Admin'') = ''111111111111''"
    by simp
  from conjunct1 [OF conjunct2 [OF conjunct2 [OF th]]] demo_console_tab(1)
  have d: "spec_console_url ''https://us-east-1.console.aws.amazon.com/ec2/home?region=us-east-1''"
    by (rule iffD1)
  from conjunct2 [OF conjunct2 [OF conjunct2 [OF th]]]
  have e: "list_all (\<lambda>c. uri_unescaped c \<or> c = CHR ''%'')
         ''https%3A%2F%2Fus-east-1.console.aws.amazon.com%2Fec2%2Fhome%3Fregion%3Dus-east-1''"
    by (simp only: demo_console_tab(2))
  from a b c d e show ?thesis by (intro conjI)
qed

subsection \<open>The default user\<close>

text \<open>
  What \<open>getDefaultUser\<close> returns when the policy finds no user: the first user of the list
  under the \<open>lastUserId\<close> policy (nothing for an empty list), and nothing under a policy
  that names a user id which no user of the list has.
\<close>

lemma getDefaultUser_no_match:
  "(map_of (settings d) ''defaultUser'' = Some (JStr ''lastUserId'')
      \<and> (\<forall>u\<in>set (users d). \<not> strict_eq (map_of u ''userId'') (map_of (settings d) ''lastUserId''))
     \<longrightarrow> getDefaultUser d = (case users d of [] \<Rightarrow> None | u # _ \<Rightarrow> Some u))
   \<and> (map_of (settings d) ''defaultUser'' = Some (JStr uid) \<and> uid \<noteq> ''lastUserId''
      \<and> (\<forall>u\<in>set (users d). map_of u ''userId'' \<noteq> Some (JStr uid))
     \<longrightarrow> getDefaultUser d = None)"
proof (intro conjI impI)
  assume a: "map_of (settings d) ''defaultUser'' = Some (JStr ''lastUserId'')
      \<and> (\<forall>u\<in>set (users d). \<not> strict_eq (map_of u ''userId'') (map_of (settings d) ''lastUserId''))"
  then have "find (\<lambda>u. strict_eq (map_of u ''userId'') (map_of (settings d) ''lastUserId'')) (users d) = None"
    by (simp add: find_None_iff)
  with a show "getDefaultUser d = (case users d of [] \<Rightarrow> None | u # _ \<Rightarrow> Some u)"
    by (simp add: getDefaultUser_def strict_eq_def)
next
  assume b: "map_of (settings d) ''defaultUser'' = Some (JStr uid) \<and> uid \<noteq> ''lastUserId''
      \<and> (\<forall>u\<in>set (users d). map_of u ''userId'' \<noteq> Some (JStr uid))"
  then have "filter (\<lambda>u. strict_eq (map_of u ''userId'') (map_of (settings d) ''defaultUser'')) (users d) = []"
    by (auto simp: filter_empty_conv strict_eq_def split: option.splits json.splits)
  with b show "getDefaultUser d = None"
    by (simp add: getDefaultUser_def strict_eq_def)
qed

text \<open>The user list of \<open>loadData\<close> is the engine's answer for the loaded users.\<close>

lemma loadData_users:
  assumes "loadData ext engine_sort local_keys st = Inr d"
  shows "\<exists>stg loaded. loadSettings ext st = Inr stg
     \<and> loadUsers ext (js_truthy (map_of stg ''enableSync'')) st = Inr loaded
     \<and> engine_sort users_cmp loaded = Inr (users d)"
  using assms by (auto simp: loadData_def Let_def split: sum.splits if_splits)

lemma demo_mixed_users:
  "loadUsers demo_ext True demo_mixed = Inr [demo_loaded ''ann'' 5, demo_recordless, demo_loaded ''cy'' 10]"
  by (simp add: loadUsers_def stored_userIds_def demo_keys demo_mixed_def loadUser_def loadUser_custom_def
      select_area_def area_get_def backfill_self demo_loaded_def demo_recordless_def)

text \<open>
  V8 on the three users: \<open>ben\<close> is not put before \<open>ann\<close>, nor \<open>cy\<close> before \<open>ben\<close>, so the
  whole array counts as a run in order and is left as it is.
\<close>

lemma v8_sort_demo_mixed:
  "v8_sort users_cmp [demo_loaded ''ann'' 5, demo_recordless, demo_loaded ''cy'' 10]
     = Inr [demo_loaded ''ann'' 5, demo_recordless, demo_loaded ''cy'' 10]"
  by (simp add: v8_sort_def count_and_make_run_def users_cmp_def updatedAt_gt_def updatedAt_num_def
      demo_loaded_def demo_recordless_def)

lemma demo_loadUsers:
  "loadUsers demo_ext True demo_store =
     Inr [AList.update ''custom'' (JObj hardcoded_defaultCustom)
            [(''userId'', JStr ''alice''), (''appProfileIds'', JArr [JStr ''p-1'', JStr ''p-2'']),
             (''custom'', JObj []), (''updatedAt'', JNum 4)],
          AList.update ''custom'' (JObj hardcoded_defaultCustom)
            [(''userId'', JStr ''bob''), (''appProfileIds'', JArr [JStr ''p-2'', JStr ''p-3'']),
             (''custom'', JObj []), (''updatedAt'', JNum 9)]]"
  by (simp add: loadUsers_def stored_userIds_def demo_keys demo_store_def loadUser_def loadUser_custom_def
      select_area_def area_get_def backfill_self)

lemma demo_loads:
  "loadIamLogins demo_ext demo_store =
     Inr [(''p-1'', JObj [(''profileId'', JStr ''p-1''), (''roleName'', JStr ''ops'')]),
          (''p-3'', JObj [(''profileId'', JStr ''p-3''), (''roleName'', JStr ''dev'')]),
          (''updatedAt'', JNum 6)]"
  "loadSettings demo_ext demo_store =
     Inr (backfill hardcoded_defaultSettings
            [(''defaultUser'', JStr ''alice''), (''lastUserId'', JStr ''alice''), (''updatedAt'', JNum 5)])"
  "storage_local demo_store ''p-1'' = Some (JObj [(''applicationName'', JStr ''AWS Account''), (''updatedAt'', JNum 3)])"
  "storage_local demo_store ''p-2'' = None"
  "storage_local demo_store ''p-3'' = Some (JObj [(''applicationName'', JStr ''Wiki''), (''updatedAt'', JNum 8)])"
  by (simp_all add: loadIamLogins_def loadSettings_def demo_keys demo_store_def)

text \<open>
  On \<open>demo_store\<close>, where both users have records, V8 reverses the descending run of
  \<open>alice\<close> and \<open>bob\<close>: \<open>bob\<close>, updated later, comes first, and the profile list holds
  the records of \<open>p-3\<close> and \<open>p-1\<close>, none for \<open>p-2\<close> and one for each id.
\<close>

lemma demo_store_loadData:
  "\<exists>d. loadData demo_ext v8_sort [''p-1'', ''p-3'', ''sso-iam-logins''] demo_store = Inr d
     \<and> map (\<lambda>u. map_of u ''userId'') (users d) = [Some (JStr ''bob''), Some (JStr ''alice'')]
     \<and> appProfiles d = [JObj [(''applicationName'', JStr ''Wiki''), (''updatedAt'', JNum 8)],
                        JObj [(''applicationName'', JStr ''AWS Account''), (''updatedAt'', JNum 3)]]"
proof -
  have es: "js_truthy (map_of (backfill hardcoded_defaultSettings
            [(''defaultUser'', JStr ''alice''), (''lastUserId'', JStr ''alice''), (''updatedAt'', JNum 5)]) ''enableSync'')"
    by (simp add: map_of_backfill js_truthy_def hardcoded_defaultSettings_def)
  show ?thesis
    by (simp add: loadData_def demo_loads es demo_loadUsers time_value_def
      v8_sort_def count_and_make_run_def users_cmp_def updatedAt_gt_def updatedAt_num_def
      user_appProfileIds_def uniq_def storage_key_def first_item_def List.map_filter_def)
qed

text \<open>
  C10. The claim takes the first user of \<open>loadData\<close>'s list for the most recently updated
  one. On \<open>demo_mixed\<close>, where \<open>ben\<close> is listed and has no stored record, \<open>loadData\<close> in
  Chrome returns the users in the stored order \<open>ann\<close>, \<open>ben\<close>, \<open>cy\<close>; with the default
  settings (the \<open>lastUserId\<close> policy, no last user) \<open>getDefaultUser\<close> falls back to the first
  of them and returns \<open>ann\<close>, updated at 5, although \<open>cy\<close> was updated at 10.
\<close>

theorem getDefaultUser_recordless_user:
  "loadData demo_ext v8_sort [] demo_mixed =
     Inr \<lparr>data_updatedAt = Some (JNum 5), appProfiles = [], settings = hardcoded_defaultSettings,
          users = [demo_loaded ''ann'' 5, demo_recordless, demo_loaded ''cy'' 10], iamLogins = []\<rparr>
   \<and> getDefaultUser (projr (loadData demo_ext v8_sort [] demo_mixed)) = Some (demo_loaded ''ann'' 5)
   \<and> updatedAt_gt (demo_loaded ''cy'' 10) (demo_loaded ''ann'' 5)"
proof -
  have s: "loadSettings demo_ext demo_mixed = Inr hardcoded_defaultSettings"
    by (simp add: loadSettings_def demo_keys demo_mixed_def backfill_self)
  have l: "loadIamLogins demo_ext demo_mixed = Inr []"
    by (simp add: loadIamLogins_def demo_keys demo_mixed_def)
  have e: "js_truthy (map_of hardcoded_defaultSettings ''enableSync'')"
    by (simp add: js_truthy_def hardcoded_defaultSettings_def)
  have t: "time_value (map_of (demo_loaded uid n) ''updatedAt'') \<longleftrightarrow> time_value (Some (JNum n))"
    "time_value (map_of demo_recordless ''updatedAt'')" "time_value (Some (JNum 5))" "time_value (Some (JNum 10))"
    for uid n
    by (simp_all add: time_value_def demo_loaded_def demo_recordless_def)
  have i: "user_appProfileIds (demo_loaded uid n) = []" "user_appProfileIds demo_recordless = [None]" for uid n
    by (simp_all add: user_appProfileIds_def demo_loaded_def demo_recordless_def)
  have f: "first_item [] demo_mixed None = None"
    by (simp add: first_item_def List.map_filter_def)
  have u: "map_of (demo_loaded ''ann'' 5) ''updatedAt'' = Some (JNum 5)"
    by (simp add: demo_loaded_def)
  have d: "loadData demo_ext v8_sort [] demo_mixed =
     Inr \<lparr>data_updatedAt = Some (JNum 5), appProfiles = [], settings = hardcoded_defaultSettings,
          users = [demo_loaded ''ann'' 5, demo_recordless, demo_loaded ''cy'' 10], iamLogins = []\<rparr>"
    by (simp add: loadData_def s l e demo_mixed_users t v8_sort_demo_mixed i uniq_def storage_key_def f u
        List.map_filter_def Let_def)
  have g: "getDefaultUser \<lparr>data_updatedAt = Some (JNum 5), appProfiles = [], settings = hardcoded_defaultSettings,
          users = [demo_loaded ''ann'' 5, demo_recordless, demo_loaded ''cy'' 10], iamLogins = []\<rparr>
       = Some (demo_loaded ''ann'' 5)"
    by (simp add: getDefaultUser_def strict_eq_def hardcoded_defaultSettings_def demo_loaded_def
        demo_recordless_def)
  have c: "updatedAt_gt (demo_loaded ''cy'' 10) (demo_loaded ''ann'' 5)"
    by (simp add: updatedAt_gt_def updatedAt_num_def demo_loaded_def)
  show ?thesis unfolding d using g c by simp
qed

subsection \<open>The profiles that loadData returns\<close>

lemma uniq_from_set: "set (uniq_from seen xs) = set xs - set seen"
  by (induction xs arbitrary: seen) auto

lemma uniq_from_distinct: "distinct (uniq_from seen xs)"
  by (induction xs arbitrary: seen) (auto simp: uniq_from_set)

lemma uniq_set: "set (uniq xs) = set xs"
  by (simp add: uniq_def uniq_from_set)

lemma uniq_distinct: "distinct (uniq xs)"
  by (simp add: uniq_def uniq_from_distinct)

lemma uniq_from_map:
  "inj f \<Longrightarrow> uniq_from (map f seen) (map f xs) = map f (uniq_from seen xs)"
proof (induction xs arbitrary: seen)
  case Nil
  then show ?case by simp
next
  case (Cons x xs)
  from Cons.prems have m: "f x \<in> f ` set seen \<longleftrightarrow> x \<in> set seen"
    by (simp add: inj_image_mem_iff)
  from Cons.IH [OF Cons.prems, of "x # seen"] Cons.IH [OF Cons.prems, of seen] m
  show ?case by simp
qed

lemma uniq_map: "inj f \<Longrightarrow> uniq (map f xs) = map f (uniq xs)"
  using uniq_from_map [of f "[]" xs] by (simp add: uniq_def)

lemma map_filter_card:
  assumes "distinct xs"
  shows "length (List.map_filter f xs) = card {x \<in> set xs. f x \<noteq> None}"
proof -
  have "length (List.map_filter f xs) = length (filter (\<lambda>x. f x \<noteq> None) xs)"
    by (simp add: List.map_filter_def)
  also have "\<dots> = card (set (filter (\<lambda>x. f x \<noteq> None) xs))"
    using distinct_card [OF distinct_filter [OF assms, of "\<lambda>x. f x \<noteq> None"]] by (rule sym)
  also have "set (filter (\<lambda>x. f x \<noteq> None) xs) = {x \<in> set xs. f x \<noteq> None}"
    by (rule set_filter)
  finally show ?thesis .
qed

text \<open>
  Where every user of the returned list has an array of strings as \<open>appProfileIds\<close>, the
  profile list holds, for the referenced ids in the order of their first occurrence and
  each id once, the stored record of every id that has one, and nothing else.
\<close>

lemma loadData_appProfiles_of_strings:
  assumes ld: "loadData ext engine_sort local_keys st = Inr d"
    and ids: "map user_appProfileIds (users d) = map (map (Some \<circ> JStr)) idss"
  shows "appProfiles d = map (the \<circ> storage_local st)
           (filter (\<lambda>p. storage_local st p \<noteq> None) (uniq (concat idss)))"
    and "length (appProfiles d) = card {p \<in> set (concat idss). storage_local st p \<noteq> None}"
proof -
  have inj: "inj (Some \<circ> JStr)"
    by (rule injI) simp
  from ld have "appProfiles d =
      List.map_filter (first_item local_keys st) (uniq (concat (map user_appProfileIds (users d))))"
    by (auto simp: loadData_def Let_def split: sum.splits if_splits)
  also have "concat (map user_appProfileIds (users d)) = map (Some \<circ> JStr) (concat idss)"
    by (simp add: ids map_concat)
  also have "uniq (map (Some \<circ> JStr) (concat idss)) = map (Some \<circ> JStr) (uniq (concat idss))"
    by (rule uniq_map [OF inj])
  also have "List.map_filter (first_item local_keys st) (map (Some \<circ> JStr) (uniq (concat idss)))
      = List.map_filter (storage_local st) (uniq (concat idss))"
    by (simp add: List.map_filter_def first_item_def filter_map comp_def)
  finally have a: "appProfiles d = List.map_filter (storage_local st) (uniq (concat idss))" .
  then show "appProfiles d = map (the \<circ> storage_local st)
           (filter (\<lambda>p. storage_local st p \<noteq> None) (uniq (concat idss)))"
    by (simp add: List.map_filter_def)
  show "length (appProfiles d) = card {p \<in> set (concat idss). storage_local st p \<noteq> None}"
    unfolding a using map_filter_card [OF uniq_distinct, of "storage_local st" "concat idss"]
    by (simp only: uniq_set)
qed

text \<open>
  C9. The claim has the profile list hold the stored records of the referenced ids and
  nothing else. \<open>demo_unsynced\<close> is the store \<open>demo_synced\<close> after a configuration that turns
  sync off was imported for \<open>alice\<close>: she is listed, and the local area holds no record of
  her. \<open>loadData\<close> returns on it; its one user has no \<open>appProfileIds\<close>, so no profile id is
  referenced; and the profile list holds one record, the customization stored under
  \<open>sso-custom-alice\<close>, the first item of the local area.
\<close>

theorem loadData_recordless_user:
  "importUserConfig demo_ext ''alice'' demo_cfg 20 21 demo_synced = (True, demo_unsynced)
   \<and> \<not> isl demo_unsynced_data
   \<and> map (\<lambda>u. map_of u ''appProfileIds'') (users (projr demo_unsynced_data)) = [None]
   \<and> appProfiles (projr demo_unsynced_data) =
       [JObj [(''colorDefault'', JStr ''00ff00''), (''updatedAt'', JNum 21)]]
   \<and> storage_local demo_unsynced ''sso-custom-alice'' =
       Some (JObj [(''colorDefault'', JStr ''00ff00''), (''updatedAt'', JNum 21)])"
proof -
  have r: "importUserConfig demo_ext ''alice'' demo_cfg 20 21 demo_synced = (True, demo_unsynced)"
    by (simp add: importUserConfig_def demo_cfg_def demo_synced_def demo_unsynced_def saveSettings_def
        saveCustom_def saveData_def area_set_def stamp_def spread_def demo_keys js_truthy_def select_area_def)
  have s: "loadSettings demo_ext demo_unsynced =
      Inr (backfill hardcoded_defaultSettings
             [(''enableSync'', JBool False), (''iconColor'', JStr ''blue''), (''updatedAt'', JNum 20)])"
    by (simp add: loadSettings_def demo_keys demo_unsynced_def)
  have l: "loadIamLogins demo_ext demo_unsynced = Inr []"
    by (simp add: loadIamLogins_def demo_keys demo_unsynced_def)
  have e: "\<not> js_truthy (map_of (backfill hardcoded_defaultSettings
             [(''enableSync'', JBool False), (''iconColor'', JStr ''blue''), (''updatedAt'', JNum 20)]) ''enableSync'')"
    by (simp add: map_of_backfill js_truthy_def)
  have u: "loadUsers demo_ext False demo_unsynced =
      Inr [[(''custom'', JObj (backfill hardcoded_defaultCustom
              [(''colorDefault'', JStr ''00ff00''), (''updatedAt'', JNum 21)]))]]"
    by (simp add: loadUsers_def stored_userIds_def demo_keys demo_unsynced_def loadUser_def loadUser_custom_def
        select_area_def area_get_def)
  have v: "v8_sort users_cmp [[(''custom'', c)]] = Inr [[(''custom'', c)]]" for c
    by (simp add: v8_sort_def count_and_make_run_def)
  have f: "first_item [''sso-custom-alice''] demo_unsynced None =
       Some (JObj [(''colorDefault'', JStr ''00ff00''), (''updatedAt'', JNum 21)])"
    by (simp add: first_item_def List.map_filter_def demo_unsynced_def)
  have d: "demo_unsynced_data =
     Inr \<lparr>data_updatedAt = None,
          appProfiles = [JObj [(''colorDefault'', JStr ''00ff00''), (''updatedAt'', JNum 21)]],
          settings = backfill hardcoded_defaultSettings
             [(''enableSync'', JBool False), (''iconColor'', JStr ''blue''), (''updatedAt'', JNum 20)],
          users = [[(''custom'', JObj (backfill hardcoded_defaultCustom
              [(''colorDefault'', JStr ''00ff00''), (''updatedAt'', JNum 21)]))]],
          iamLogins = []\<rparr>"
    by (simp add: demo_unsynced_data_def loadData_def s l e u v time_value_def user_appProfileIds_def
        uniq_def storage_key_def f List.map_filter_def)
  have k: "storage_local demo_unsynced ''sso-custom-alice'' =
       Some (JObj [(''colorDefault'', JStr ''00ff00''), (''updatedAt'', JNum 21)])"
    by (simp add: demo_unsynced_def)
  show ?thesis unfolding d using r k by simp
qed

subsection \<open>Saving and loading a user\<close>

lemma key_distinct:
  "userKey ext a \<noteq> customKey ext b" "customKey ext b \<noteq> userKey ext a"
  "userKey ext a \<noteq> settingsKey ext" "customKey ext a \<noteq> settingsKey ext"
  "userKey ext a \<noteq> usersKey ext" "customKey ext a \<noteq> usersKey ext"
  "usersKey ext \<noteq> settingsKey ext" "settingsKey ext \<noteq> usersKey ext"
  "settingsKey ext \<noteq> customKey ext a" "settingsKey ext \<noteq> userKey ext a"
  "usersKey ext \<noteq> customKey ext a" "usersKey ext \<noteq> userKey ext a"
  by (simp_all add: userKey_def customKey_def settingsKey_def usersKey_def)

lemma area_get_set:
  "area_get db (area_set db' k v st) k' = (if db = db' \<and> k' = k then Some v else area_get db st k')"
  by (cases db; cases db') (simp_all add: area_get_def area_set_def)

lemma area_get_saveData:
  "area_get db (saveData k v db' now st) k' = (if db = db' \<and> k' = k then Some (stamp now v) else area_get db st k')"
  by (simp add: saveData_def area_get_set)

lemma stamp_JObj: "stamp now (JObj obj) = JObj (AList.update ''updatedAt'' (JNum now) obj)"
  by (simp add: stamp_def spread_def)

text \<open>
  C7. After \<open>saveUser(user, enableSync)\<close>, the record stored under the user's key is the
  input with \<open>custom\<close> replaced by an empty object and \<open>updatedAt\<close> set to the time of the
  write; the customization, when the input has one, is stored under its own key, stamped
  with the time of its write. \<open>loadUser(user.userId, enableSync)\<close> then returns the stored
  record with \<open>custom\<close> replaced by what it loads from the customization key. When the
  input's \<open>custom\<close> is an object, the loaded user reads, at every key but \<open>custom\<close> and
  \<open>updatedAt\<close>, what the input reads; its \<open>custom\<close> is the stored customization backfilled
  from the defaults, and its \<open>updatedAt\<close> is the time of the write.
\<close>

theorem saveUser_loadUser_roundtrip:
  assumes "uid = js_string_opt (map_of user ''userId'')"
    and "st' = saveUser ext user enableSync t_custom t_user st"
    and "db = select_area enableSync"
  shows "area_get db st' (userKey ext uid) =
           Some (JObj (AList.update ''updatedAt'' (JNum t_user) (AList.update ''custom'' (JObj []) user)))
    \<and> area_get db st' (customKey ext uid) =
         (case map_of user ''custom'' of
            Some c \<Rightarrow> Some (stamp t_custom c)
          | None \<Rightarrow> area_get db st (customKey ext uid))
    \<and> loadUser ext uid enableSync st' =
         (case loadUser_custom ext uid enableSync st' of
            Inl e \<Rightarrow> Inl e
          | Inr c \<Rightarrow> Inr (AList.update ''custom'' (JObj c)
                       (AList.update ''updatedAt'' (JNum t_user) (AList.update ''custom'' (JObj []) user))))
    \<and> (map_of user ''custom'' = Some (JObj c) \<longrightarrow>
         (\<exists>u. loadUser ext uid enableSync st' = Inr u
            \<and> (\<forall>k. map_of u k =
                 (if k = ''custom''
                  then Some (JObj (backfill (defaultCustom ext) (AList.update ''updatedAt'' (JNum t_custom) c)))
                  else if k = ''updatedAt'' then Some (JNum t_user)
                  else map_of user k))))"
proof -
  have urec: "area_get db st' (userKey ext uid) =
           Some (JObj (AList.update ''updatedAt'' (JNum t_user) (AList.update ''custom'' (JObj []) user)))"
    unfolding assms saveUser_def Let_def
    by (simp add: area_get_saveData stamp_JObj)
  have crec: "area_get db st' (customKey ext uid) =
         (case map_of user ''custom'' of
            Some c \<Rightarrow> Some (stamp t_custom c)
          | None \<Rightarrow> area_get db st (customKey ext uid))"
    unfolding assms saveUser_def Let_def saveCustom_def
    by (simp add: area_get_saveData key_distinct split: option.splits)
  have load: "loadUser ext uid enableSync st' =
         (case loadUser_custom ext uid enableSync st' of
            Inl e \<Rightarrow> Inl e
          | Inr c \<Rightarrow> Inr (AList.update ''custom'' (JObj c)
                       (AList.update ''updatedAt'' (JNum t_user) (AList.update ''custom'' (JObj []) user))))"
    using urec unfolding assms(3) by (simp add: loadUser_def)
  have obj: "\<exists>u. loadUser ext uid enableSync st' = Inr u
            \<and> (\<forall>k. map_of u k =
                 (if k = ''custom''
                  then Some (JObj (backfill (defaultCustom ext) (AList.update ''updatedAt'' (JNum t_custom) c)))
                  else if k = ''updatedAt'' then Some (JNum t_user)
                  else map_of user k))"
    if c: "map_of user ''custom'' = Some (JObj c)"
  proof -
    from crec c have "area_get (select_area enableSync) st' (customKey ext uid)
        = Some (JObj (AList.update ''updatedAt'' (JNum t_custom) c))"
      by (simp add: stamp_JObj assms(3))
    then have "loadUser_custom ext uid enableSync st'
        = Inr (backfill (defaultCustom ext) (AList.update ''updatedAt'' (JNum t_custom) c))"
      by (simp add: loadUser_custom_def)
    with load show ?thesis
      by (simp add: update_conv')
  qed
  from urec crec load obj show ?thesis by blast
qed


theorem saveUser_loadUser_roundtrip_witness:
  "area_get SyncArea (saveUser demo_ext demo_user_object True 20 21 demo_empty) ''sso-user-carol'' =
     Some (JObj [(''userId'', JStr ''carol''),
                 (''managedActiveDirectoryId'', JStr ''d-1234567890''),
                 (''appProfileIds'', JArr [JStr ''p-7'']),
                 (''custom'', JObj []),
                 (''updatedAt'', JNum 21)])
   \<and> (\<exists>u c. loadUser demo_ext ''carol'' True (saveUser demo_ext demo_user_object True 20 21 demo_empty) = Inr u
        \<and> map_of u ''userId'' = Some (JStr ''carol'')
        \<and> map_of u ''appProfileIds'' = Some (JArr [JStr ''p-7''])
        \<and> map_of u ''updatedAt'' = Some (JNum 21)
        \<and> map_of u ''custom'' = Some (JObj c)
        \<and> map_of c ''colorDefault'' = Some (JStr ''00ff00'')
        \<and> map_of c ''displayName'' = Some (JStr [])
        \<and> map_of c ''updatedAt'' = Some (JNum 20))"
proof -
  note rt = saveUser_loadUser_roundtrip
    [where ext = demo_ext and user = demo_user_object and enableSync = True and t_custom = 20
       and t_user = 21 and st = demo_empty
       and c = "[(''colorDefault'', JStr ''00ff00''), (''labelIcon'', JBool True)]",
     OF refl refl refl]
  have uid: "js_string_opt (map_of demo_user_object ''userId'') = ''carol''"
    by (simp add: demo_user_object_def js_string_opt_def)
  have key: "userKey demo_ext ''carol'' = ''sso-user-carol''"
    by (simp add: userKey_def demo_ext_def new_Extension_def)
  have a: "area_get SyncArea (saveUser demo_ext demo_user_object True 20 21 demo_empty) ''sso-user-carol'' =
     Some (JObj [(''userId'', JStr ''carol''),
                 (''managedActiveDirectoryId'', JStr ''d-1234567890''),
                 (''appProfileIds'', JArr [JStr ''p-7'']),
                 (''custom'', JObj []),
                 (''updatedAt'', JNum 21)])"
    using conjunct1 [OF rt] unfolding uid key
    by (simp add: select_area_def demo_user_object_def)
  have c: "map_of demo_user_object ''custom'' = Some (JObj [(''colorDefault'', JStr ''00ff00''), (''labelIcon'', JBool True)])"
    by (simp add: demo_user_object_def)
  from mp [OF conjunct2 [OF conjunct2 [OF conjunct2 [OF rt]]] c]
  obtain u where u: "loadUser demo_ext ''carol'' True (saveUser demo_ext demo_user_object True 20 21 demo_empty) = Inr u"
    and k: "\<And>k. map_of u k =
                 (if k = ''custom''
                  then Some (JObj (backfill (defaultCustom demo_ext)
                         (AList.update ''updatedAt'' (JNum 20) [(''colorDefault'', JStr ''00ff00''), (''labelIcon'', JBool True)])))
                  else if k = ''updatedAt'' then Some (JNum 21)
                  else map_of demo_user_object k)"
    unfolding uid by (elim exE conjE) blast
  have b: "\<exists>u c. loadUser demo_ext ''carol'' True (saveUser demo_ext demo_user_object True 20 21 demo_empty) = Inr u
        \<and> map_of u ''userId'' = Some (JStr ''carol'')
        \<and> map_of u ''appProfileIds'' = Some (JArr [JStr ''p-7''])
        \<and> map_of u ''updatedAt'' = Some (JNum 21)
        \<and> map_of u ''custom'' = Some (JObj c)
        \<and> map_of c ''colorDefault'' = Some (JStr ''00ff00'')
        \<and> map_of c ''displayName'' = Some (JStr [])
        \<and> map_of c ''updatedAt'' = Some (JNum 20)"
    using u k [of "''userId''"] k [of "''appProfileIds''"] k [of "''updatedAt''"] k [of "''custom''"]
    by (intro exI [of _ u]
        exI [of _ "backfill (defaultCustom demo_ext)
                     (AList.update ''updatedAt'' (JNum 20) [(''colorDefault'', JStr ''00ff00''), (''labelIcon'', JBool True)])"])
       (simp add: demo_user_object_def map_of_backfill demo_ext_def new_Extension_def hardcoded_defaultCustom_def)
  from a b show ?thesis by (intro conjI)
qed

subsection \<open>importUserConfig\<close>

text \<open>
  C8, as the code has it. \<open>importUserConfig\<close> always returns a boolean. It returns \<open>false\<close>
  and leaves the storage as it is when \<open>cfg\<close> is no object or lacks \<open>user\<close> or \<open>extension\<close>.
  When both are present and \<open>cfg.extension\<close> is not \<open>null\<close>, it returns \<open>true\<close>, the
  settings key holds \<open>cfg.extension\<close> and the customization key of the user holds \<open>cfg.user\<close>,
  each as \<open>saveData\<close> stores it, the customization in the area that
  \<open>cfg.extension.enableSync\<close> selects.
\<close>

theorem importUserConfig_result:
  "((\<forall>kvs. cfg \<noteq> JObj kvs) \<longrightarrow> importUserConfig ext uid cfg t_settings t_custom st = (False, st))
   \<and> (cfg = JObj kvs \<and> (map_of kvs ''user'' = None \<or> map_of kvs ''extension'' = None)
        \<longrightarrow> importUserConfig ext uid cfg t_settings t_custom st = (False, st))
   \<and> (cfg = JObj kvs \<and> map_of kvs ''user'' = Some cfg_user \<and> map_of kvs ''extension'' = Some cfg_extension
        \<and> cfg_extension \<noteq> JNull
        \<longrightarrow> (\<exists>st'. importUserConfig ext uid cfg t_settings t_custom st = (True, st')
              \<and> storage_sync st' (settingsKey ext) = Some (stamp t_settings cfg_extension)
              \<and> area_get (select_area (js_truthy (case cfg_extension of JObj e \<Rightarrow> map_of e ''enableSync'' | _ \<Rightarrow> None)))
                   st' (customKey ext uid) = Some (stamp t_custom cfg_user)))"
proof (intro conjI impI)
  assume "\<forall>kvs. cfg \<noteq> JObj kvs"
  then show "importUserConfig ext uid cfg t_settings t_custom st = (False, st)"
    by (cases cfg) (simp_all add: importUserConfig_def)
next
  assume "cfg = JObj kvs \<and> (map_of kvs ''user'' = None \<or> map_of kvs ''extension'' = None)"
  then show "importUserConfig ext uid cfg t_settings t_custom st = (False, st)"
    by (auto simp: importUserConfig_def split: option.splits)
next
  assume a: "cfg = JObj kvs \<and> map_of kvs ''user'' = Some cfg_user \<and> map_of kvs ''extension'' = Some cfg_extension
        \<and> cfg_extension \<noteq> JNull"
  have sync: "storage_sync s k = area_get SyncArea s k" for s k
    by (simp add: area_get_def)
  show "\<exists>st'. importUserConfig ext uid cfg t_settings t_custom st = (True, st')
              \<and> storage_sync st' (settingsKey ext) = Some (stamp t_settings cfg_extension)
              \<and> area_get (select_area (js_truthy (case cfg_extension of JObj e \<Rightarrow> map_of e ''enableSync'' | _ \<Rightarrow> None)))
                   st' (customKey ext uid) = Some (stamp t_custom cfg_user)"
    using a
    by (cases cfg_extension)
       (simp_all add: importUserConfig_def Let_def saveSettings_def saveCustom_def sync area_get_saveData
          key_distinct js_truthy_def)
qed


theorem importUserConfig_result_witness:
  "importUserConfig demo_ext ''alice'' (JStr ''{}'') 30 31 demo_store = (False, demo_store)
   \<and> importUserConfig demo_ext ''alice'' (JObj [(''user'', JObj [])]) 30 31 demo_store = (False, demo_store)
   \<and> (\<exists>st'. importUserConfig demo_ext ''alice'' demo_cfg 30 31 demo_store = (True, st')
         \<and> storage_sync st' ''sso-settings'' =
              Some (JObj [(''enableSync'', JBool False), (''iconColor'', JStr ''blue''), (''updatedAt'', JNum 30)])
         \<and> storage_local st' ''sso-custom-alice'' =
              Some (JObj [(''colorDefault'', JStr ''00ff00''), (''updatedAt'', JNum 31)]))"
proof -
  have a: "importUserConfig demo_ext ''alice'' (JStr ''{}'') 30 31 demo_store = (False, demo_store)"
    using conjunct1 [OF importUserConfig_result [of "JStr ''{}''" demo_ext "''alice''" 30 31 demo_store]]
    by simp
  have b: "importUserConfig demo_ext ''alice'' (JObj [(''user'', JObj [])]) 30 31 demo_store = (False, demo_store)"
    using conjunct1 [OF conjunct2 [OF importUserConfig_result
        [of "JObj [(''user'', JObj [])]" demo_ext "''alice''" 30 31 demo_store "[(''user'', JObj [])]"]]]
    by simp
  have c: "\<exists>st'. importUserConfig demo_ext ''alice'' demo_cfg 30 31 demo_store = (True, st')
         \<and> storage_sync st' ''sso-settings'' =
              Some (JObj [(''enableSync'', JBool False), (''iconColor'', JStr ''blue''), (''updatedAt'', JNum 30)])
         \<and> storage_local st' ''sso-custom-alice'' =
              Some (JObj [(''colorDefault'', JStr ''00ff00''), (''updatedAt'', JNum 31)])"
    using conjunct2 [OF conjunct2 [OF importUserConfig_result
        [of demo_cfg demo_ext "''alice''" 30 31 demo_store
            "[(''user'', JObj [(''colorDefault'', JStr ''00ff00'')]),
              (''extension'', JObj [(''enableSync'', JBool False), (''iconColor'', JStr ''blue'')])]"
            "JObj [(''colorDefault'', JStr ''00ff00'')]"
            "JObj [(''enableSync'', JBool False), (''iconColor'', JStr ''blue'')]"]]]
    by (simp add: demo_cfg_def demo_keys js_truthy_def select_area_def area_get_def stamp_JObj)
  from a b c show ?thesis by (intro conjI)
qed

text \<open>
  The claim as stated fails: with both keys present and \<open>extension: null\<close> the function
  returns \<open>false\<close> and writes no customization (the settings key has been overwritten by
  then).
\<close>

theorem importUserConfig_null_counterexample:
  "demo_cfg_null = JObj [(''user'', JObj [(''colorDefault'', JStr ''00ff00'')]), (''extension'', JNull)]
   \<and> fst (importUserConfig demo_ext ''alice'' demo_cfg_null 30 31 demo_store) = False
   \<and> storage_local (snd (importUserConfig demo_ext ''alice'' demo_cfg_null 30 31 demo_store)) ''sso-custom-alice'' = None
   \<and> storage_sync (snd (importUserConfig demo_ext ''alice'' demo_cfg_null 30 31 demo_store)) ''sso-custom-alice'' = None
   \<and> storage_sync (snd (importUserConfig demo_ext ''alice'' demo_cfg_null 30 31 demo_store)) ''sso-settings''
        = Some (JObj [(''updatedAt'', JNum 30)])"
  by (simp add: demo_cfg_null_def importUserConfig_def saveSettings_def saveData_def area_set_def
      stamp_def spread_def demo_keys demo_store_def)

subsection \<open>removeUser\<close>

lemma map_of_fold_delete:
  "map_of (fold AList.delete ps l) p = (if p \<in> set ps then None else map_of l p)"
  by (induction ps arbitrary: l) (auto simp: delete_conv')

lemma strict_eq_JStr:
  "strict_eq x (Some (JStr u)) \<longleftrightarrow> x = Some (JStr u)"
  by (auto simp: strict_eq_def split: option.splits json.splits)

lemma storage_local_saveData:
  "storage_local (saveData k v db now st) =
     (case db of LocalArea \<Rightarrow> (storage_local st)(k \<mapsto> stamp now v) | SyncArea \<Rightarrow> storage_local st)"
  by (cases db) (simp_all add: saveData_def area_set_def)

lemma storage_sync_saveData:
  "storage_sync (saveData k v db now st) =
     (case db of SyncArea \<Rightarrow> (storage_sync st)(k \<mapsto> stamp now v) | LocalArea \<Rightarrow> storage_sync st)"
  by (cases db) (simp_all add: saveData_def area_set_def)

lemma storage_area_remove:
  "storage_local (area_remove db ks st) =
     (case db of LocalArea \<Rightarrow> remove_keys ks (storage_local st) | SyncArea \<Rightarrow> storage_local st)"
  "storage_sync (area_remove db ks st) =
     (case db of SyncArea \<Rightarrow> remove_keys ks (storage_sync st) | LocalArea \<Rightarrow> storage_sync st)"
  by (cases db; simp add: area_remove_def)+

text \<open>What the steps leave in the local area.\<close>

lemma remove_app_profiles_local:
  "p \<in> set ps \<Longrightarrow> storage_local (remove_app_profiles (Some ps) st) p = None"
  by (cases ps) (auto simp: remove_app_profiles_def storage_area_remove remove_keys_def)

lemma remove_app_profiles_sync:
  "storage_sync (remove_app_profiles ids st) = storage_sync st"
  by (auto simp: remove_app_profiles_def storage_area_remove split: option.splits list.splits)

lemma remove_iam_logins_Some:
  assumes "remove_iam_logins ext (Some ps) t st = Inr st3"
  shows "\<exists>logins. loadIamLogins ext st = Inr logins
     \<and> storage_local st3 = (storage_local st)(loginsKey ext \<mapsto>
          JObj (AList.update ''updatedAt'' (JNum t) (fold AList.delete ps logins)))
     \<and> storage_sync st3 = storage_sync st"
  using assms
  by (auto simp: remove_iam_logins_def storage_local_saveData storage_sync_saveData stamp_JObj split: sum.splits)

lemma remove_iam_logins_None:
  "remove_iam_logins ext None t st = Inr st3 \<Longrightarrow> st3 = st"
  by (auto simp: remove_iam_logins_def split: sum.splits)

lemma remove_from_users_Inr:
  assumes "remove_from_users ext uid t st = Inr (us, st4)"
  shows "\<exists>userIds. stored_userIds ext st = Inr userIds
     \<and> us = filter (\<lambda>v. v \<noteq> JStr uid) userIds
     \<and> storage_sync st4 = (storage_sync st)(usersKey ext \<mapsto>
          JObj [(''users'', JArr us), (''updatedAt'', JNum t)])
     \<and> storage_local st4 = storage_local st"
  using assms
  by (auto simp: remove_from_users_def Let_def storage_local_saveData storage_sync_saveData stamp_JObj
      strict_eq_JStr split: sum.splits)

lemma update_removed_settings_Inr:
  assumes "update_removed_settings ext uid us t st = Inr (ext', st')"
  shows "storage_local st' = storage_local st
     \<and> (\<forall>k. k \<noteq> settingsKey ext \<longrightarrow> storage_sync st' k = storage_sync st k)
     \<and> (\<exists>stg. loadSettings ext st = Inr stg
          \<and> (map_of stg ''defaultUser'' = Some (JStr uid) \<or> map_of stg ''lastUserId'' = Some (JStr uid) \<longrightarrow>
               (\<exists>s'. storage_sync st' (settingsKey ext) = Some (JObj s')
                  \<and> map_of s' ''lastUserId'' = Some (first_or_empty us)
                  \<and> map_of s' ''defaultUser'' =
                       (if map_of stg ''defaultUser'' = Some (JStr uid) then Some (JStr ''lastUserId'')
                        else map_of stg ''defaultUser'')))
          \<and> (\<not> (map_of stg ''defaultUser'' = Some (JStr uid) \<or> map_of stg ''lastUserId'' = Some (JStr uid)) \<longrightarrow>
               st' = st \<and> ext' = ext))"
proof -
  from assms obtain stg where ls: "loadSettings ext st = Inr stg"
    by (auto simp: update_removed_settings_def split: sum.splits)
  show ?thesis
  proof (cases "map_of stg ''defaultUser'' = Some (JStr uid) \<or> map_of stg ''lastUserId'' = Some (JStr uid)")
    case False
    with assms ls have "st' = st" "ext' = ext"
      by (simp_all add: update_removed_settings_def strict_eq_JStr)
    with ls False show ?thesis by simp
  next
    case True
    define s1 where "s1 = AList.update ''lastUserId'' (first_or_empty us) stg"
    define s2 where "s2 = (if map_of stg ''defaultUser'' = Some (JStr uid)
                           then AList.update ''defaultUser'' (JStr ''lastUserId'') s1 else s1)"
    have d: "map_of s1 ''defaultUser'' = map_of stg ''defaultUser''"
      by (simp add: s1_def update_conv')
    from assms ls True have st': "st' = saveSettings ext (JObj s2) t st"
      by (simp add: update_removed_settings_def Let_def strict_eq_JStr s1_def [symmetric] d s2_def)
    have loc: "storage_local st' = storage_local st"
      by (simp add: st' saveSettings_def storage_local_saveData)
    have oth: "\<forall>k. k \<noteq> settingsKey ext \<longrightarrow> storage_sync st' k = storage_sync st k"
      by (simp add: st' saveSettings_def storage_sync_saveData)
    have set: "storage_sync st' (settingsKey ext) = Some (JObj (AList.update ''updatedAt'' (JNum t) s2))"
      by (simp add: st' saveSettings_def storage_sync_saveData stamp_JObj)
    have l: "map_of (AList.update ''updatedAt'' (JNum t) s2) ''lastUserId'' = Some (first_or_empty us)"
      by (simp add: update_conv' s2_def s1_def)
    have du: "map_of (AList.update ''updatedAt'' (JNum t) s2) ''defaultUser'' =
                       (if map_of stg ''defaultUser'' = Some (JStr uid) then Some (JStr ''lastUserId'')
                        else map_of stg ''defaultUser'')"
      by (simp add: update_conv' s2_def s1_def)
    from ls True loc oth set l du show ?thesis by blast
  qed
qed


lemma first_or_empty_cases:
  "first_or_empty [] = JStr []" "is_JStr v \<Longrightarrow> first_or_empty (v # vs) = v"
  by (auto simp: first_or_empty_def is_JStr_def js_truthy_def split: json.splits)

lemma remove_user_keys_frame:
  "storage_sync (remove_user_keys ext uid es st) (usersKey ext) = storage_sync st (usersKey ext)"
  "storage_sync (remove_user_keys ext uid es st) (settingsKey ext) = storage_sync st (settingsKey ext)"
  by (cases es; simp add: remove_user_keys_def select_area_def storage_area_remove remove_keys_def key_distinct)+

text \<open>
  C6. When \<open>removeUser(userId)\<close> completes, with \<open>ps\<close> the \<open>appProfileIds\<close> of the user as
  stored before: the IAM-login mapping is the mapping \<open>m\<close> that the function wrote back
  under \<open>saveData\<close>'s stamp, and \<open>m\<close> has no entry under any id of \<open>ps\<close>; the local area
  holds nothing under any id of \<open>ps\<close>, the profile records being removed (the one thing it
  can hold under such an id is that mapping, should the id be the mapping's own key). The
  stored id list is the one from before without the user id. If the settings from before
  name the user as \<open>defaultUser\<close> or as \<open>lastUserId\<close>, the stored settings have \<open>lastUserId\<close>
  set to a remaining id, the first of the list, or to the empty string when none remains,
  and \<open>defaultUser\<close> set to \<open>lastUserId\<close> when it named the user.
\<close>

theorem removeUser_leaves:
  assumes run: "removeUser ext uid es t_logins t_users t_settings st = Inr (ext', st')"
    and lu: "loadUser ext uid es st = Inr user"
    and ri: "removable_appProfileIds user = Inr ids"
  shows "(\<forall>ps. ids = Some ps \<longrightarrow>
            (\<exists>m. loadIamLogins ext st' = Inr (AList.update ''updatedAt'' (JNum t_logins) m)
               \<and> (\<forall>p\<in>set ps. map_of m p = None)
               \<and> (\<forall>p\<in>set ps. storage_local st' p =
                     (if p = loginsKey ext then Some (JObj (AList.update ''updatedAt'' (JNum t_logins) m))
                      else None))))
    \<and> (\<exists>userIds. stored_userIds ext st = Inr userIds
          \<and> stored_userIds ext st' = Inr (filter (\<lambda>v. v \<noteq> JStr uid) userIds)
          \<and> JStr uid \<notin> set (filter (\<lambda>v. v \<noteq> JStr uid) userIds)
          \<and> (\<exists>stg. loadSettings ext st = Inr stg
                \<and> (map_of stg ''defaultUser'' = Some (JStr uid) \<or> map_of stg ''lastUserId'' = Some (JStr uid) \<longrightarrow>
                     (\<exists>s'. storage_sync st' (settingsKey ext) = Some (JObj s')
                        \<and> map_of s' ''lastUserId'' = Some (first_or_empty (filter (\<lambda>v. v \<noteq> JStr uid) userIds))
                        \<and> (first_or_empty (filter (\<lambda>v. v \<noteq> JStr uid) userIds)
                              \<in> set (filter (\<lambda>v. v \<noteq> JStr uid) userIds)
                            \<or> first_or_empty (filter (\<lambda>v. v \<noteq> JStr uid) userIds) = JStr [])
                        \<and> map_of s' ''defaultUser'' =
                             (if map_of stg ''defaultUser'' = Some (JStr uid) then Some (JStr ''lastUserId'')
                              else map_of stg ''defaultUser'')))))
    \<and> first_or_empty [] = JStr []
    \<and> (\<forall>v vs. is_JStr v \<longrightarrow> first_or_empty (v # vs) = v)"
proof -
  define st1 where "st1 = remove_user_keys ext uid es st"
  define st2 where "st2 = remove_app_profiles ids st1"
  from run lu ri obtain st3 us st4 where
    s3: "remove_iam_logins ext ids t_logins st2 = Inr st3"
    and s4: "remove_from_users ext uid t_users st3 = Inr (us, st4)"
    and s5: "update_removed_settings ext uid us t_settings st4 = Inr (ext', st')"
    by (auto simp: removeUser_def st1_def st2_def split: sum.splits prod.splits)
  from remove_from_users_Inr [OF s4] obtain userIds where
    u3: "stored_userIds ext st3 = Inr userIds"
    and us: "us = filter (\<lambda>v. v \<noteq> JStr uid) userIds"
    and sync4: "storage_sync st4 = (storage_sync st3)(usersKey ext \<mapsto> JObj [(''users'', JArr us), (''updatedAt'', JNum t_users)])"
    and loc4: "storage_local st4 = storage_local st3"
    by blast
  from update_removed_settings_Inr [OF s5] obtain stg where
    loc5: "storage_local st' = storage_local st4"
    and sync5: "\<forall>k. k \<noteq> settingsKey ext \<longrightarrow> storage_sync st' k = storage_sync st4 k"
    and ls4: "loadSettings ext st4 = Inr stg"
    and upd: "map_of stg ''defaultUser'' = Some (JStr uid) \<or> map_of stg ''lastUserId'' = Some (JStr uid) \<longrightarrow>
               (\<exists>s'. storage_sync st' (settingsKey ext) = Some (JObj s')
                  \<and> map_of s' ''lastUserId'' = Some (first_or_empty us)
                  \<and> map_of s' ''defaultUser'' =
                       (if map_of stg ''defaultUser'' = Some (JStr uid) then Some (JStr ''lastUserId'')
                        else map_of stg ''defaultUser''))"
    by blast
  have sync3: "storage_sync st3 = storage_sync st1"
  proof (cases ids)
    case None
    with s3 have "st3 = st2" by (simp add: remove_iam_logins_None)
    then show ?thesis by (simp add: st2_def remove_app_profiles_sync)
  next
    case (Some ps)
    with remove_iam_logins_Some [of ext ps t_logins st2 st3] s3
    have "storage_sync st3 = storage_sync st2" by blast
    then show ?thesis by (simp add: st2_def remove_app_profiles_sync)
  qed
  have profiles: "\<exists>m. loadIamLogins ext st' = Inr (AList.update ''updatedAt'' (JNum t_logins) m)
               \<and> (\<forall>p\<in>set ps. map_of m p = None)
               \<and> (\<forall>p\<in>set ps. storage_local st' p =
                     (if p = loginsKey ext then Some (JObj (AList.update ''updatedAt'' (JNum t_logins) m))
                      else None))"
    if ids: "ids = Some ps" for ps
  proof -
    from remove_iam_logins_Some [of ext ps t_logins st2 st3] s3 ids obtain logins where
      loc3: "storage_local st3 = (storage_local st2)(loginsKey ext \<mapsto>
          JObj (AList.update ''updatedAt'' (JNum t_logins) (fold AList.delete ps logins)))"
      by blast
    define m where "m = fold AList.delete ps logins"
    have loc: "storage_local st' = (storage_local st2)(loginsKey ext \<mapsto>
          JObj (AList.update ''updatedAt'' (JNum t_logins) m))"
      by (simp add: loc5 loc4 loc3 m_def)
    have a: "loadIamLogins ext st' = Inr (AList.update ''updatedAt'' (JNum t_logins) m)"
      by (simp add: loadIamLogins_def loc)
    have b: "\<forall>p\<in>set ps. map_of m p = None"
      by (simp add: m_def map_of_fold_delete)
    have c: "\<forall>p\<in>set ps. storage_local st' p =
                     (if p = loginsKey ext then Some (JObj (AList.update ''updatedAt'' (JNum t_logins) m))
                      else None)"
    proof
      fix p assume "p \<in> set ps"
      from remove_app_profiles_local [OF this, of st1]
      have "storage_local st2 p = None" by (simp add: st2_def ids)
      then show "storage_local st' p =
                     (if p = loginsKey ext then Some (JObj (AList.update ''updatedAt'' (JNum t_logins) m))
                      else None)"
        by (simp add: loc)
    qed
    from a b c show ?thesis by (intro exI [of _ m] conjI)
  qed
  have users0: "stored_userIds ext st = Inr userIds"
    using u3 by (simp add: stored_userIds_def sync3 st1_def remove_user_keys_frame)
  have users': "stored_userIds ext st' = Inr us"
    using sync5 [rule_format, of "usersKey ext"]
    by (simp add: stored_userIds_def sync4 key_distinct)
  have ls0: "loadSettings ext st = Inr stg"
    using ls4 by (simp add: loadSettings_def sync4 sync3 st1_def remove_user_keys_frame key_distinct)
  have notin: "JStr uid \<notin> set (filter (\<lambda>v. v \<noteq> JStr uid) userIds)"
    by simp
  have rem: "first_or_empty vs \<in> set vs \<or> first_or_empty vs = JStr []" for vs
    by (cases vs) (simp_all add: first_or_empty_def)
  have upd': "map_of stg ''defaultUser'' = Some (JStr uid) \<or> map_of stg ''lastUserId'' = Some (JStr uid) \<longrightarrow>
               (\<exists>s'. storage_sync st' (settingsKey ext) = Some (JObj s')
                  \<and> map_of s' ''lastUserId'' = Some (first_or_empty us)
                  \<and> (first_or_empty us \<in> set us \<or> first_or_empty us = JStr [])
                  \<and> map_of s' ''defaultUser'' =
                       (if map_of stg ''defaultUser'' = Some (JStr uid) then Some (JStr ''lastUserId'')
                        else map_of stg ''defaultUser''))"
    using upd rem [of us] by blast
  have p1: "\<forall>ps. ids = Some ps \<longrightarrow>
            (\<exists>m. loadIamLogins ext st' = Inr (AList.update ''updatedAt'' (JNum t_logins) m)
               \<and> (\<forall>p\<in>set ps. map_of m p = None)
               \<and> (\<forall>p\<in>set ps. storage_local st' p =
                     (if p = loginsKey ext then Some (JObj (AList.update ''updatedAt'' (JNum t_logins) m))
                      else None)))"
    using profiles by blast
  have p2: "\<exists>userIds. stored_userIds ext st = Inr userIds
          \<and> stored_userIds ext st' = Inr (filter (\<lambda>v. v \<noteq> JStr uid) userIds)
          \<and> JStr uid \<notin> set (filter (\<lambda>v. v \<noteq> JStr uid) userIds)
          \<and> (\<exists>stg. loadSettings ext st = Inr stg
                \<and> (map_of stg ''defaultUser'' = Some (JStr uid) \<or> map_of stg ''lastUserId'' = Some (JStr uid) \<longrightarrow>
                     (\<exists>s'. storage_sync st' (settingsKey ext) = Some (JObj s')
                        \<and> map_of s' ''lastUserId'' = Some (first_or_empty (filter (\<lambda>v. v \<noteq> JStr uid) userIds))
                        \<and> (first_or_empty (filter (\<lambda>v. v \<noteq> JStr uid) userIds)
                              \<in> set (filter (\<lambda>v. v \<noteq> JStr uid) userIds)
                            \<or> first_or_empty (filter (\<lambda>v. v \<noteq> JStr uid) userIds) = JStr [])
                        \<and> map_of s' ''defaultUser'' =
                             (if map_of stg ''defaultUser'' = Some (JStr uid) then Some (JStr ''lastUserId'')
                              else map_of stg ''defaultUser''))))"
    using users0 users' ls0 upd' notin unfolding us
    by (intro exI [of _ userIds] exI [of _ stg] conjI)
  from p1 p2 first_or_empty_cases show ?thesis
    by (intro conjI) blast+
qed


lemma demo_alice:
  "loadUser demo_ext ''alice'' True demo_store =
     Inr [(''userId'', JStr ''alice''), (''appProfileIds'', JArr [JStr ''p-1'', JStr ''p-2'']),
             (''custom'', JObj hardcoded_defaultCustom), (''updatedAt'', JNum 4)]"
  "removable_appProfileIds [(''userId'', JStr ''alice''), (''appProfileIds'', JArr [JStr ''p-1'', JStr ''p-2'']),
             (''custom'', JObj hardcoded_defaultCustom), (''updatedAt'', JNum 4)] = Inr (Some [''p-1'', ''p-2''])"
  by (simp_all add: demo_keys demo_store_def loadUser_def loadUser_custom_def
      select_area_def area_get_def backfill_self removable_appProfileIds_def js_truthy_def is_JStr_def)

lemma demo_alice_removed:
  "\<exists>e s. removeUser demo_ext ''alice'' True 10 11 12 demo_store = Inr (e, s)"
proof -
  have st: "storage_sync demo_store ''sso-settings'' =
      Some (JObj [(''defaultUser'', JStr ''alice''), (''lastUserId'', JStr ''alice''), (''updatedAt'', JNum 5)])"
    "storage_sync demo_store ''sso-users'' = Some (JObj [(''users'', JArr [JStr ''alice'', JStr ''bob'']), (''updatedAt'', JNum 9)])"
    "storage_local demo_store ''sso-iam-logins'' =
       Some (JObj [(''p-1'', JObj [(''profileId'', JStr ''p-1''), (''roleName'', JStr ''ops'')]),
                  (''p-3'', JObj [(''profileId'', JStr ''p-3''), (''roleName'', JStr ''dev'')]),
                  (''updatedAt'', JNum 6)])"
    by (simp_all add: demo_store_def)
  show ?thesis
    by (simp add: removeUser_def demo_alice remove_iam_logins_def remove_app_profiles_def remove_user_keys_def
        remove_from_users_def update_removed_settings_def loadIamLogins_def stored_userIds_def loadSettings_def
        storage_local_saveData storage_sync_saveData storage_area_remove remove_keys_def select_area_def
        demo_keys st Let_def map_of_backfill strict_eq_def)
qed

theorem removeUser_leaves_witness:
  "\<exists>e s. removeUser demo_ext ''alice'' True 10 11 12 demo_store = Inr (e, s)
     \<and> (\<exists>m. loadIamLogins demo_ext s = Inr (AList.update ''updatedAt'' (JNum 10) m)
           \<and> map_of m ''p-1'' = None \<and> map_of m ''p-2'' = None)
     \<and> storage_local s ''p-1'' = None
     \<and> storage_local s ''p-2'' = None
     \<and> stored_userIds demo_ext s = Inr [JStr ''bob'']
     \<and> (\<exists>s'. storage_sync s ''sso-settings'' = Some (JObj s')
           \<and> map_of s' ''lastUserId'' = Some (JStr ''bob'')
           \<and> map_of s' ''defaultUser'' = Some (JStr ''lastUserId''))"
proof -
  from demo_alice_removed obtain e s where
    run: "removeUser demo_ext ''alice'' True 10 11 12 demo_store = Inr (e, s)"
    by blast
  note th = removeUser_leaves [OF run demo_alice]
  from conjunct1 [OF th] obtain m where
    m: "loadIamLogins demo_ext s = Inr (AList.update ''updatedAt'' (JNum 10) m)"
    and e: "\<forall>p\<in>set [''p-1'', ''p-2'']. map_of m p = None"
    and l: "\<forall>p\<in>set [''p-1'', ''p-2'']. storage_local s p =
              (if p = loginsKey demo_ext then Some (JObj (AList.update ''updatedAt'' (JNum 10) m)) else None)"
    by blast
  from e have e1: "map_of m ''p-1'' = None" "map_of m ''p-2'' = None"
    by simp_all
  from l have p1: "storage_local s ''p-1'' = None" "storage_local s ''p-2'' = None"
    by (simp_all add: demo_keys)
  have ids: "stored_userIds demo_ext demo_store = Inr [JStr ''alice'', JStr ''bob'']"
    by (simp add: stored_userIds_def demo_keys demo_store_def)
  have stg: "loadSettings demo_ext demo_store =
     Inr (backfill hardcoded_defaultSettings
            [(''defaultUser'', JStr ''alice''), (''lastUserId'', JStr ''alice''), (''updatedAt'', JNum 5)])"
    by (simp add: loadSettings_def demo_keys demo_store_def)
  have "is_JStr (JStr ''bob'')"
    by (simp add: is_JStr_def)
  with conjunct2 [OF conjunct2 [OF conjunct2 [OF th]]]
  have f: "first_or_empty [JStr ''bob''] = JStr ''bob''"
    by blast
  from conjunct1 [OF conjunct2 [OF th]] ids stg
  have u: "stored_userIds demo_ext s = Inr [JStr ''bob'']"
    and g: "\<exists>s'. storage_sync s ''sso-settings'' = Some (JObj s')
           \<and> map_of s' ''lastUserId'' = Some (JStr ''bob'')
           \<and> map_of s' ''defaultUser'' = Some (JStr ''lastUserId'')"
    by (simp_all add: demo_keys map_of_backfill f)
  from m e1 have lm: "\<exists>m. loadIamLogins demo_ext s = Inr (AList.update ''updatedAt'' (JNum 10) m)
           \<and> map_of m ''p-1'' = None \<and> map_of m ''p-2'' = None"
    by (intro exI [of _ m] conjI)
  from run lm p1 u g show ?thesis by (intro exI [of _ e] exI [of _ s] conjI)
qed

end
